theory Spec2Isabelle
  imports Complex_Main "HOL-Library.Multiset" "HOL-Library.Sublist"
begin

section \<open>Data model\<close>

text \<open>
  A task is the dictionary built in \<^verbatim>\<open>main\<close> of \<^verbatim>\<open>app.py\<close> when the "Add Task" button is
  pressed. Its \<^verbatim>\<open>priority\<close> comes from a select box offering exactly the labels
  \<^verbatim>\<open>"Low"\<close>, \<^verbatim>\<open>"Medium"\<close> and \<^verbatim>\<open>"High"\<close>, so the field is an enumeration and the
  dictionary lookups keyed by it (\<^verbatim>\<open>priority_order\<close>, \<^verbatim>\<open>time_allocation\<close>) cannot miss.

  A calendar date (\<^verbatim>\<open>datetime.date\<close>) is its day number in the proleptic Gregorian
  calendar (\<^verbatim>\<open>date.toordinal()\<close>), an integer. A time stamp
  (\<^verbatim>\<open>datetime.datetime\<close>, naive local time) is the number of microseconds since midnight
  of day 0, the resolution of Python's \<^verbatim>\<open>datetime\<close>. The range limits of Python's and
  pandas' time types (years 1 to 9999, respectively 1677 to 2262) are not modelled.
  Python's unbounded integers are \<^typ>\<open>int\<close>.
\<close>

datatype priority = Low | Medium | High

type_synonym date = int
type_synonym datetime = int

definition us_per_minute :: int where
  "us_per_minute = 60000000"

definition us_per_hour :: int where
  "us_per_hour = 3600000000"

definition us_per_day :: int where
  "us_per_day = 86400000000"

text \<open>\<^verbatim>\<open>dt.date()\<close>, \<^verbatim>\<open>dt.hour\<close>, \<^verbatim>\<open>dt + timedelta(minutes=m)\<close> and the time stamp that
  \<^verbatim>\<open>pd.to_datetime\<close> gives a date (its midnight).\<close>

definition date_of :: "datetime \<Rightarrow> date" where
  "date_of dt = dt div us_per_day"

definition hour_of :: "datetime \<Rightarrow> int" where
  "hour_of dt = (dt mod us_per_day) div us_per_hour"

definition add_minutes :: "datetime \<Rightarrow> int \<Rightarrow> datetime" where
  "add_minutes dt m = dt + m * us_per_minute"

definition midnight :: "date \<Rightarrow> datetime" where
  "midnight d = d * us_per_day"

record task =
  task_id :: int
  description :: string
  due_date :: date
  priority :: priority
  created_at :: datetime
  completed :: bool

section \<open>The task store: the actions of \<^verbatim>\<open>main\<close>\<close>

text \<open>
  \<^verbatim>\<open>st.session_state.tasks\<close> is a list of tasks in insertion order. Each run of the script
  handles at most one button press; the store after the run is the store before it,
  changed by that press. \<^verbatim>\<open>st.success\<close> and \<^verbatim>\<open>st.warning\<close> are the message shown.
\<close>

datatype message = Success string | Warning string

text \<open>Lines 174 to 187 of \<^verbatim>\<open>app.py\<close>: \<^verbatim>\<open>if new_task:\<close> is true of every non-empty string.\<close>

definition add_task ::
  "string \<Rightarrow> date \<Rightarrow> priority \<Rightarrow> datetime \<Rightarrow> task list \<Rightarrow> task list \<times> message" where
  "add_task new_task due prio now tasks =
     (if new_task \<noteq> [] then
        (tasks @ [\<lparr>task_id = int (length tasks) + 1, description = new_task,
                   due_date = due, priority = prio, created_at = now,
                   completed = False\<rparr>],
         Success ''Task added successfully!'')
      else (tasks, Warning ''Please enter a task description''))"

text \<open>Line 240: the button of a displayed task flips that task's own flag; the task is
  the object shown, here its position in the store.\<close>

definition toggle_complete :: "nat \<Rightarrow> task list \<Rightarrow> task list" where
  "toggle_complete i tasks =
     (if i < length tasks
      then tasks[i := (tasks ! i)\<lparr>completed := \<not> completed (tasks ! i)\<rparr>]
      else tasks)"

text \<open>Line 243: the store becomes the list of the tasks whose id differs.\<close>

definition delete_task :: "int \<Rightarrow> task list \<Rightarrow> task list" where
  "delete_task tid tasks = [t \<leftarrow> tasks. task_id t \<noteq> tid]"

datatype action =
    AddTask string date priority datetime
  | ToggleComplete nat
  | DeleteTask int

fun step :: "task list \<Rightarrow> action \<Rightarrow> task list" where
  "step tasks (AddTask new_task due prio now) = fst (add_task new_task due prio now tasks)"
| "step tasks (ToggleComplete i) = toggle_complete i tasks"
| "step tasks (DeleteTask tid) = delete_task tid tasks"

definition run :: "action list \<Rightarrow> task list" where
  "run acts = foldl step [] acts"

fun is_delete :: "action \<Rightarrow> bool" where
  "is_delete (DeleteTask tid) = True"
| "is_delete a = False"

definition ids :: "task list \<Rightarrow> int list" where
  "ids tasks = map task_id tasks"

section \<open>The daily capacity estimate: \<^verbatim>\<open>analyze_daily_productivity\<close>\<close>

text \<open>
  The function reads the clock twice, for today's date and for the current hour; the
  two readings are the parameters \<open>now_a\<close> and \<open>now_b\<close>. The result \<^verbatim>\<open>(None, None, None)\<close>
  is \<^const>\<open>None\<close>, a result \<^verbatim>\<open>(today_tasks, completion_rate, can_complete)\<close> is
  \<^const>\<open>Some\<close> of the triple. The completion rate is a Python float, here the real
  number that the quotient denotes (rounding is not modelled).
\<close>

definition analyze_daily_productivity ::
  "datetime \<Rightarrow> datetime \<Rightarrow> task list \<Rightarrow> (task list \<times> real \<times> bool) option" where
  "analyze_daily_productivity now_a now_b tasks =
     (let today = date_of now_a;
          today_tasks = [task \<leftarrow> tasks. due_date task = today]
      in if today_tasks = [] then None
         else
           let completed_today = int (length [task \<leftarrow> today_tasks. completed task]);
               total_today = int (length today_tasks);
               completion_rate =
                 (if total_today > 0
                  then (real_of_int completed_today / real_of_int total_today) * 100
                  else 0);
               avg_task_time = 30;
               remaining_tasks = total_today - completed_today;
               estimated_time_needed = remaining_tasks * avg_task_time;
               current_hour = hour_of now_b;
               remaining_hours = 24 - current_hour;
               can_complete = (estimated_time_needed \<le> remaining_hours * 60)
           in Some (today_tasks, completion_rate, can_complete))"

section \<open>The timetable: \<^verbatim>\<open>generate_timetable\<close>\<close>

record slot =
  slot_task :: string
  slot_priority :: priority
  start_time :: datetime
  end_time :: datetime
  duration :: int

text \<open>The dictionaries \<^verbatim>\<open>priority_order\<close> and \<^verbatim>\<open>time_allocation\<close>.\<close>

fun priority_order :: "priority \<Rightarrow> int" where
  "priority_order High = 1"
| "priority_order Medium = 2"
| "priority_order Low = 3"

fun time_allocation :: "priority \<Rightarrow> int" where
  "time_allocation High = 60"
| "time_allocation Medium = 45"
| "time_allocation Low = 30"

text \<open>The \<^verbatim>\<open>for\<close> loop of lines 136 to 156: its state is \<^verbatim>\<open>current_time\<close> and the
  \<^verbatim>\<open>timetable\<close> built so far.\<close>

fun timetable_loop :: "task list \<Rightarrow> datetime \<Rightarrow> slot list \<Rightarrow> slot list" where
  "timetable_loop [] current_time timetable = timetable"
| "timetable_loop (task # rest) current_time timetable =
     (let task_time = time_allocation (priority task);
          start_time = current_time;
          end_time = add_minutes start_time task_time
      in timetable_loop rest end_time
           (timetable @ [\<lparr>slot_task = description task, slot_priority = priority task,
                           start_time = start_time, end_time = end_time,
                           duration = task_time\<rparr>]))"

text \<open>
  \<^verbatim>\<open>list.sort(key=...)\<close> is a stable sort; \<^const>\<open>sort_key\<close> is one too, and the result
  of a stable sort is determined by the list and the key. The clock is read twice,
  for today's date (\<open>now_a\<close>) and for the start of the first slot (\<open>now_b\<close>). The result
  \<^verbatim>\<open>None\<close> is \<^const>\<open>None\<close>.
\<close>

definition generate_timetable :: "datetime \<Rightarrow> datetime \<Rightarrow> task list \<Rightarrow> slot list option" where
  "generate_timetable now_a now_b tasks =
     (let today = date_of now_a;
          today_tasks = [task \<leftarrow> tasks. due_date task = today \<and> \<not> completed task]
      in if today_tasks = [] then None
         else
           let today_tasks = sort_key (\<lambda>x. priority_order (priority x)) today_tasks;
               current_time = now_b
           in Some (timetable_loop today_tasks current_time []))"

text \<open>The slot that one pass of the loop body appends when the current time is \<open>ct\<close>.\<close>

definition slot_for :: "task \<Rightarrow> datetime \<Rightarrow> slot" where
  "slot_for task ct =
     \<lparr>slot_task = description task, slot_priority = priority task, start_time = ct,
      end_time = add_minutes ct (time_allocation (priority task)),
      duration = time_allocation (priority task)\<rparr>"

section \<open>The feature table and the classifier: \<^verbatim>\<open>analyze_productivity\<close>\<close>

text \<open>
  A row of the data frame is the task's dictionary with the derived columns added.
  A probability is a Python float, here the real number it denotes, so \<^verbatim>\<open>0.3\<close> is
  \<open>3/10\<close> (rounding is not modelled).
\<close>

record feature_row = task +
  days_to_due :: int
  is_completed :: int
  priority_encoded :: int
  completion_probability :: real

text \<open>\<^verbatim>\<open>(a - b).dt.days\<close>: the days component of a time difference, which pandas
  normalises as Python does its \<^verbatim>\<open>timedelta\<close> (the rest is never negative), so it is the
  floor. Line 49 turns the due date into the time stamp of its midnight.\<close>

definition timedelta_days :: "datetime \<Rightarrow> datetime \<Rightarrow> int" where
  "timedelta_days a b = (a - b) div us_per_day"

definition task_days_to_due :: "task \<Rightarrow> int" where
  "task_days_to_due task = timedelta_days (midnight (due_date task)) (created_at task)"

text \<open>\<^verbatim>\<open>LabelEncoder.fit_transform\<close>: the classes are the labels that occur, sorted as
  strings (\<^verbatim>\<open>"High" < "Low" < "Medium"\<close>); a label's code is its position among them.\<close>

fun index_of :: "'a \<Rightarrow> 'a list \<Rightarrow> nat" where
  "index_of x [] = 0"
| "index_of x (y # ys) = (if x = y then 0 else Suc (index_of x ys))"

definition label_classes :: "priority list \<Rightarrow> priority list" where
  "label_classes ps = [p \<leftarrow> [High, Low, Medium]. p \<in> set ps]"

definition fit_transform :: "priority list \<Rightarrow> int list" where
  "fit_transform ps = map (\<lambda>p. int (index_of p (label_classes ps))) ps"

text \<open>
  The random forest is outside this development: \<open>clf X y\<close> stands for fitting
  \<^verbatim>\<open>RandomForestClassifier(n_estimators=100, random_state=42)\<close> on the feature rows \<open>X\<close>
  and the labels \<open>y\<close> and reading \<^verbatim>\<open>predict_proba(X)[:, 1]\<close>; it is \<^const>\<open>None\<close> where
  that raises. Every exception is caught at line 89 and gives \<^verbatim>\<open>(None, None)\<close>, here
  \<^const>\<open>None\<close>; so does a column whose length is not the number of rows. The figure
  is not modelled.
\<close>

type_synonym classifier = "(int \<times> int) list \<Rightarrow> int list \<Rightarrow> real list option"

definition make_row :: "task \<Rightarrow> int \<Rightarrow> real \<Rightarrow> feature_row" where
  "make_row task code prob =
     task.extend task
       \<lparr>days_to_due = task_days_to_due task,
        is_completed = (if completed task then 1 else 0),
        priority_encoded = code,
        completion_probability = prob\<rparr>"

definition analyze_productivity :: "classifier \<Rightarrow> task list \<Rightarrow> feature_row list option" where
  "analyze_productivity clf tasks =
     (if tasks = [] then None
      else
        let days = map task_days_to_due tasks;
            y = map (\<lambda>task. if completed task then 1 else 0) tasks;
            codes = fit_transform (map priority tasks);
            X = zip days codes
        in case clf X y of
             None \<Rightarrow> None
           | Some probs \<Rightarrow>
               if length probs = length tasks
               then Some (map (\<lambda>(task, code, prob). make_row task code prob)
                            (zip tasks (zip codes probs)))
               else None)"

text \<open>Line 305: \<^verbatim>\<open>df[df['completion_probability'] < 0.3]\<close>.\<close>

definition high_risk_tasks :: "feature_row list \<Rightarrow> feature_row list" where
  "high_risk_tasks df = [row \<leftarrow> df. completion_probability row < 3 / 10]"

section \<open>The analysis functions on a store of objects\<close>

text \<open>
  The task list that the analysis functions receive is a Python list of dictionaries:
  objects that other parts of the program hold too. To say that a call leaves them
  alone, the functions are modelled a second time over a store of objects. An address
  is a position in the store; allocation appends an object; a mutation replaces the
  object at an address. A list object holds the addresses of its elements, so a list
  comprehension makes a new list object that shares the task objects of the old one.
  A data frame holds copies of the values it was built from; a column that was not
  assigned yet is \<^const>\<open>None\<close>.
\<close>

type_synonym addr = nat

record frame =
  frame_tasks :: "task list"
  col_days_to_due :: "int list option"
  col_is_completed :: "int list option"
  col_priority_encoded :: "int list option"
  col_completion_probability :: "real list option"

datatype obj = TaskObj task | ListObj "addr list" | SlotObj slot | FrameObj frame

type_synonym heap = "obj list"

definition alloc :: "obj \<Rightarrow> heap \<Rightarrow> addr \<times> heap" where
  "alloc v h = (length h, h @ [v])"

definition put :: "addr \<Rightarrow> obj \<Rightarrow> heap \<Rightarrow> heap" where
  "put a v h = h[a := v]"

definition lookup :: "heap \<Rightarrow> addr \<Rightarrow> obj option" where
  "lookup h a = (if a < length h then Some (h ! a) else None)"

definition get_task :: "heap \<Rightarrow> addr \<Rightarrow> task option" where
  "get_task h a = (case lookup h a of Some (TaskObj t) \<Rightarrow> Some t | _ \<Rightarrow> None)"

definition get_list :: "heap \<Rightarrow> addr \<Rightarrow> addr list option" where
  "get_list h a = (case lookup h a of Some (ListObj as) \<Rightarrow> Some as | _ \<Rightarrow> None)"

definition get_slot :: "heap \<Rightarrow> addr \<Rightarrow> slot option" where
  "get_slot h a = (case lookup h a of Some (SlotObj s) \<Rightarrow> Some s | _ \<Rightarrow> None)"

definition get_frame :: "heap \<Rightarrow> addr \<Rightarrow> frame option" where
  "get_frame h a = (case lookup h a of Some (FrameObj f) \<Rightarrow> Some f | _ \<Rightarrow> None)"

text \<open>The tasks of the list at an address, each with its own address; \<^const>\<open>None\<close> when
  the address does not hold a list of task objects (the functions are then outside
  what \<^verbatim>\<open>main\<close> passes them, and the model gives no result).\<close>

definition read_tasks :: "heap \<Rightarrow> addr \<Rightarrow> (addr \<times> task) list option" where
  "read_tasks h l =
     (case get_list h l of
        None \<Rightarrow> None
      | Some as \<Rightarrow> map_option (zip as) (those (map (get_task h) as)))"

definition list_tasks :: "heap \<Rightarrow> addr \<Rightarrow> task list option" where
  "list_tasks h l = map_option (map snd) (read_tasks h l)"

definition read_slots :: "heap \<Rightarrow> addr \<Rightarrow> slot list option" where
  "read_slots h l =
     (case get_list h l of None \<Rightarrow> None | Some as \<Rightarrow> those (map (get_slot h) as))"

text \<open>\<^verbatim>\<open>l.append(a)\<close>: the list object at \<open>l\<close> is replaced in place.\<close>

definition list_append :: "addr \<Rightarrow> addr \<Rightarrow> heap \<Rightarrow> heap" where
  "list_append l a h =
     (case get_list h l of Some as \<Rightarrow> put l (ListObj (as @ [a])) h | None \<Rightarrow> h)"

text \<open>\<^verbatim>\<open>analyze_daily_productivity\<close>: the comprehension allocates \<^verbatim>\<open>today_tasks\<close>, which is
  returned.\<close>

definition analyze_daily_productivity_heap ::
  "datetime \<Rightarrow> datetime \<Rightarrow> addr \<Rightarrow> heap \<Rightarrow> (heap \<times> (addr \<times> real \<times> bool) option) option" where
  "analyze_daily_productivity_heap now_a now_b tasks h =
     (case read_tasks h tasks of
        None \<Rightarrow> None
      | Some ps \<Rightarrow>
          let today = date_of now_a;
              sel = [(a, task) \<leftarrow> ps. due_date task = today];
              (today_tasks, h1) = alloc (ListObj (map fst sel)) h
          in if sel = [] then Some (h1, None)
             else
               let completed_today = int (length [(a, task) \<leftarrow> sel. completed task]);
                   total_today = int (length sel);
                   completion_rate =
                     (if total_today > 0
                      then (real_of_int completed_today / real_of_int total_today) * 100
                      else 0);
                   avg_task_time = 30;
                   remaining_tasks = total_today - completed_today;
                   estimated_time_needed = remaining_tasks * avg_task_time;
                   current_hour = hour_of now_b;
                   remaining_hours = 24 - current_hour;
                   can_complete = (estimated_time_needed \<le> remaining_hours * 60)
               in Some (h1, Some (today_tasks, completion_rate, can_complete)))"

text \<open>\<^verbatim>\<open>generate_timetable\<close>: the comprehension allocates \<^verbatim>\<open>today_tasks\<close>, \<^verbatim>\<open>sort\<close>
  reorders that list in place, \<^verbatim>\<open>timetable = []\<close> allocates the result, and each pass of
  the loop allocates a slot and appends it.\<close>

fun timetable_loop_heap :: "(addr \<times> task) list \<Rightarrow> datetime \<Rightarrow> addr \<Rightarrow> heap \<Rightarrow> heap" where
  "timetable_loop_heap [] current_time timetable h = h"
| "timetable_loop_heap ((a, task) # rest) current_time timetable h =
     (let task_time = time_allocation (priority task);
          start_time = current_time;
          end_time = add_minutes start_time task_time;
          (s, h1) = alloc (SlotObj \<lparr>slot_task = description task,
                                     slot_priority = priority task,
                                     start_time = start_time, end_time = end_time,
                                     duration = task_time\<rparr>) h;
          h2 = list_append timetable s h1
      in timetable_loop_heap rest end_time timetable h2)"

definition generate_timetable_heap ::
  "datetime \<Rightarrow> datetime \<Rightarrow> addr \<Rightarrow> heap \<Rightarrow> (heap \<times> addr option) option" where
  "generate_timetable_heap now_a now_b tasks h =
     (case read_tasks h tasks of
        None \<Rightarrow> None
      | Some ps \<Rightarrow>
          let today = date_of now_a;
              sel = [(a, task) \<leftarrow> ps. due_date task = today \<and> \<not> completed task];
              (today_tasks, h1) = alloc (ListObj (map fst sel)) h
          in if sel = [] then Some (h1, None)
             else
               let sorted = sort_key (\<lambda>(a, x). priority_order (priority x)) sel;
                   h2 = put today_tasks (ListObj (map fst sorted)) h1;
                   current_time = now_b;
                   (timetable, h3) = alloc (ListObj []) h2
               in Some (timetable_loop_heap sorted current_time timetable h3,
                        Some timetable))"

text \<open>\<^verbatim>\<open>analyze_productivity\<close>: \<^verbatim>\<open>pd.DataFrame(tasks)\<close> allocates the frame and every column
  assignment replaces the frame in place. An exception leaves the frame behind and
  gives \<^verbatim>\<open>(None, None)\<close>.\<close>

definition analyze_productivity_heap ::
  "classifier \<Rightarrow> addr \<Rightarrow> heap \<Rightarrow> (heap \<times> addr option) option" where
  "analyze_productivity_heap clf tasks h =
     (case read_tasks h tasks of
        None \<Rightarrow> None
      | Some ps \<Rightarrow>
          let ts = map snd ps
          in if ts = [] then Some (h, None)
             else
               let f0 = \<lparr>frame_tasks = ts, col_days_to_due = None, col_is_completed = None,
                         col_priority_encoded = None, col_completion_probability = None\<rparr>;
                   (df, h1) = alloc (FrameObj f0) h;
                   days = map task_days_to_due ts;
                   f1 = f0\<lparr>col_days_to_due := Some days\<rparr>;
                   h2 = put df (FrameObj f1) h1;
                   y = map (\<lambda>task. if completed task then 1 else 0) ts;
                   f2 = f1\<lparr>col_is_completed := Some y\<rparr>;
                   h3 = put df (FrameObj f2) h2;
                   codes = fit_transform (map priority ts);
                   f3 = f2\<lparr>col_priority_encoded := Some codes\<rparr>;
                   h4 = put df (FrameObj f3) h3;
                   X = zip days codes
               in case clf X y of
                    None \<Rightarrow> Some (h4, None)
                  | Some probs \<Rightarrow>
                      if length probs = length ts
                      then Some (put df (FrameObj (f3\<lparr>col_completion_probability :=
                                                        Some probs\<rparr>)) h4,
                                 Some df)
                      else Some (h4, None))"

text \<open>Every object of the store \<open>h\<close> is still there, unchanged, in \<open>h'\<close>.\<close>

definition preserved :: "heap \<Rightarrow> heap \<Rightarrow> bool" where
  "preserved h h' \<longleftrightarrow> length h \<le> length h' \<and> (\<forall>a < length h. h' ! a = h ! a)"

text \<open>The frame that holds the rows of the value-level \<^const>\<open>analyze_productivity\<close>.\<close>

definition frame_of_rows :: "feature_row list \<Rightarrow> frame" where
  "frame_of_rows df =
     \<lparr>frame_tasks = map task.truncate df,
      col_days_to_due = Some (map days_to_due df),
      col_is_completed = Some (map is_completed df),
      col_priority_encoded = Some (map priority_encoded df),
      col_completion_probability = Some (map completion_probability df)\<rparr>"

text \<open>A store with two tasks and their list, at address 2.\<close>

definition example_heap :: heap where
  "example_heap =
     [TaskObj \<lparr>task_id = 1, description = ''tidy'', due_date = 3, priority = Low,
               created_at = 0, completed = False\<rparr>,
      TaskObj \<lparr>task_id = 2, description = ''report'', due_date = 3, priority = High,
               created_at = 1, completed = False\<rparr>,
      ListObj [0, 1]]"

section \<open>The offline trainer: \<^verbatim>\<open>train.py\<close>\<close>

text \<open>
  The file that the trainer reads is the export of \<^verbatim>\<open>app.py\<close>: its rows are tasks.
  scikit-learn and numpy are libraries, not part of the repository. Of the library
  only \<^verbatim>\<open>train_test_split\<close> is modelled, from its documented behaviour for sizes given
  as fractions (the kind the trainer passes); the permutation that numpy draws for a
  seed and a number of rows, the library's stratified splitter, the classifier's
  \<^verbatim>\<open>fit\<close> and its \<^verbatim>\<open>predict\<close> are parameters. A fraction is a Python float, here the real
  number it denotes.
\<close>

datatype py_error = ValueError | IndexError

text \<open>\<^verbatim>\<open>.dt.dayofweek\<close>: Monday is 0, and day 1 of the ordinal count is a Monday.\<close>

definition dayofweek_of :: "datetime \<Rightarrow> int" where
  "dayofweek_of dt = (date_of dt + 6) mod 7"

text \<open>Lines 16 to 26: the feature rows \<^verbatim>\<open>X\<close> (days until due, hour created, day of week
  created, encoded priority) and the labels \<^verbatim>\<open>y\<close>.\<close>

definition trainer_features :: "task list \<Rightarrow> (int \<times> int \<times> int \<times> int) list" where
  "trainer_features df =
     map (\<lambda>(task, code).
            (task_days_to_due task, hour_of (created_at task), dayofweek_of (created_at task),
             code))
         (zip df (fit_transform (map priority df)))"

definition trainer_labels :: "task list \<Rightarrow> int list" where
  "trainer_labels df = map (\<lambda>task. if completed task then 1 else 0) df"

text \<open>
  The keyword arguments of a call of \<^verbatim>\<open>train_test_split\<close>. Line 29 is
  \<^verbatim>\<open>train_test_split(X, y, test_size=0.2, random_state=42)\<close>; the arguments it does not
  pass keep the library's defaults \<^verbatim>\<open>train_size=None\<close>, \<^verbatim>\<open>shuffle=True\<close> and
  \<^verbatim>\<open>stratify=None\<close>.
\<close>

record split_call =
  test_size :: real
  train_size :: "real option"
  random_state :: "int option"
  shuffle :: bool
  stratify :: "int list option"

definition train_test_split_call :: split_call where
  "train_test_split_call =
     \<lparr>test_size = 2 / 10, train_size = None, random_state = Some 42, shuffle = True,
      stratify = None\<rparr>"

text \<open>
  The numbers of training and test rows: fractions outside the open interval from 0
  to 1, or with a sum above 1, are a \<^verbatim>\<open>ValueError\<close>; the test part has the ceiling of
  its fraction of the rows; the training part has the rest, or the floor of its own
  fraction when one is given; an empty training part is a \<^verbatim>\<open>ValueError\<close>.
\<close>

definition validate_shuffle_split :: "nat \<Rightarrow> split_call \<Rightarrow> py_error + nat \<times> nat" where
  "validate_shuffle_split n_samples c =
     (if test_size c \<le> 0 \<or> test_size c \<ge> 1 then Inl ValueError
      else
        case train_size c of
          None \<Rightarrow>
            (let n_test = nat \<lceil>test_size c * real n_samples\<rceil>;
                 n_train = n_samples - n_test
             in if n_train + n_test > n_samples then Inl ValueError
                else if n_train = 0 then Inl ValueError
                else Inr (n_train, n_test))
        | Some f \<Rightarrow>
            if f \<le> 0 \<or> f \<ge> 1 then Inl ValueError
            else if f + test_size c > 1 then Inl ValueError
            else
              (let n_test = nat \<lceil>test_size c * real n_samples\<rceil>;
                   n_train = nat \<lfloor>f * real n_samples\<rfloor>
               in if n_train + n_test > n_samples then Inl ValueError
                  else if n_train = 0 then Inl ValueError
                  else Inr (n_train, n_test)))"

text \<open>The rows at the given positions; a position outside the data is an \<^verbatim>\<open>IndexError\<close>.\<close>

definition safe_indexing :: "'a list \<Rightarrow> nat list \<Rightarrow> py_error + 'a list" where
  "safe_indexing xs indices =
     (if list_all (\<lambda>i. i < length xs) indices then Inr (map (\<lambda>i. xs ! i) indices)
      else Inl IndexError)"

text \<open>
  \<^verbatim>\<open>train_test_split\<close>: arrays of different lengths are a \<^verbatim>\<open>ValueError\<close>. Without
  shuffling the first rows train and the next rows test (and then \<^verbatim>\<open>stratify\<close> is a
  \<^verbatim>\<open>ValueError\<close>). With shuffling and \<^verbatim>\<open>stratify\<close> given, the stratified splitter draws
  the positions. With shuffling and no \<^verbatim>\<open>stratify\<close>, a permutation of the positions is
  drawn from a generator seeded with \<^verbatim>\<open>random_state\<close>; its first \<^verbatim>\<open>n_test\<close> positions are
  the test part and the next \<^verbatim>\<open>n_train\<close> the training part.
\<close>

definition train_test_split ::
  "(int option \<Rightarrow> nat \<Rightarrow> nat list) \<Rightarrow>
   (int option \<Rightarrow> int list \<Rightarrow> nat \<Rightarrow> nat \<Rightarrow> py_error + nat list \<times> nat list) \<Rightarrow>
   split_call \<Rightarrow> 'x list \<Rightarrow> int list \<Rightarrow>
   py_error + 'x list \<times> 'x list \<times> int list \<times> int list" where
  "train_test_split permutation stratified c X y =
     (if length X \<noteq> length y then Inl ValueError
      else
        case validate_shuffle_split (length X) c of
          Inl e \<Rightarrow> Inl e
        | Inr (n_train, n_test) \<Rightarrow>
            (case (if \<not> shuffle c
                   then (if stratify c \<noteq> None then Inl ValueError
                         else Inr ([0 ..< n_train], [n_train ..< n_train + n_test]))
                   else
                     case stratify c of
                       Some labels \<Rightarrow> stratified (random_state c) labels n_train n_test
                     | None \<Rightarrow>
                         (let p = permutation (random_state c) (length X);
                              ind_test = take n_test p;
                              ind_train = take n_train (drop n_test p)
                          in Inr (ind_train, ind_test)))
             of
               Inl e \<Rightarrow> Inl e
             | Inr (ind_train, ind_test) \<Rightarrow>
                 (case (safe_indexing X ind_train, safe_indexing X ind_test,
                        safe_indexing y ind_train, safe_indexing y ind_test) of
                    (Inr X_train, Inr X_test, Inr y_train, Inr y_test) \<Rightarrow>
                      Inr (X_train, X_test, y_train, y_test)
                  | _ \<Rightarrow> Inl IndexError)))"

text \<open>
  Lines 9 to 37, from the loaded rows to the pair that the report is printed from:
  the features and labels, the split, the fit on the training part and the
  prediction on the test part. An error of the split ends the script.
\<close>

definition train ::
  "(int option \<Rightarrow> nat \<Rightarrow> nat list) \<Rightarrow>
   (int option \<Rightarrow> int list \<Rightarrow> nat \<Rightarrow> nat \<Rightarrow> py_error + nat list \<times> nat list) \<Rightarrow>
   ((int \<times> int \<times> int \<times> int) list \<Rightarrow> int list \<Rightarrow> 'm) \<Rightarrow>
   ('m \<Rightarrow> (int \<times> int \<times> int \<times> int) list \<Rightarrow> int list) \<Rightarrow>
   task list \<Rightarrow> py_error + 'm \<times> int list \<times> int list" where
  "train permutation stratified fit predict df =
     (let X = trainer_features df;
          y = trainer_labels df
      in case train_test_split permutation stratified train_test_split_call X y of
           Inl e \<Rightarrow> Inl e
         | Inr (X_train, X_test, y_train, y_test) \<Rightarrow>
             (let clf = fit X_train y_train;
                  y_pred = predict clf X_test
              in Inr (clf, y_test, y_pred)))"

text \<open>
  What a stratified split keeps: for every class, the number of its rows in the test
  part is the size of the test part times the class's share of the data, rounded
  down or up.
\<close>

definition proportional :: "int list \<Rightarrow> int list \<Rightarrow> bool" where
  "proportional y y_test \<longleftrightarrow>
     list_all
       (\<lambda>c. \<lfloor>real (length y_test) * real (count_list y c) / real (length y)\<rfloor>
              \<le> int (count_list y_test c)
            \<and> int (count_list y_test c)
              \<le> \<lceil>real (length y_test) * real (count_list y c) / real (length y)\<rceil>)
       (remdups y)"

text \<open>Ten exported tasks, five of them completed.\<close>

definition example_dataset :: "task list" where
  "example_dataset =
     map (\<lambda>(i, c). \<lparr>task_id = i, description = ''t'', due_date = 20 + i, priority = Low,
                     created_at = i * 3600000000, completed = c\<rparr>)
       [(1, False), (2, True), (3, False), (4, False), (5, False),
        (6, False), (7, True), (8, True), (9, True), (10, True)]"

section \<open>Properties of the task store\<close>

lemma ids_add_task:
  "ids (fst (add_task new_task due prio now tasks)) =
     (if new_task \<noteq> [] then ids tasks @ [int (length tasks) + 1] else ids tasks)"
  by (simp add: add_task_def ids_def)

lemma ids_toggle_complete: "ids (toggle_complete i tasks) = ids tasks"
  by (simp add: toggle_complete_def ids_def list_eq_iff_nth_eq nth_list_update)

lemma ids_delete_task: "ids (delete_task tid tasks) = [k \<leftarrow> ids tasks. k \<noteq> tid]"
  by (simp add: delete_task_def ids_def filter_map comp_def)

lemma ids_step_no_delete:
  assumes "\<not> is_delete a" and "ids tasks = [1 .. int (length tasks)]"
  shows "ids (step tasks a) = [1 .. int (length (step tasks a))]"
proof (cases a)
  case (AddTask new_task due prio now)
  show ?thesis
  proof (cases "new_task = []")
    case True
    with AddTask assms show ?thesis by (simp add: add_task_def)
  next
    case False
    with AddTask have i: "ids (step tasks a) = ids tasks @ [int (length tasks) + 1]"
      by (simp add: ids_add_task)
    from False AddTask have l: "int (length (step tasks a)) = int (length tasks) + 1"
      by (simp add: add_task_def)
    have "[1 .. int (length tasks) + 1] = [1 .. int (length tasks)] @ [int (length tasks) + 1]"
      using upto_rec2 [of 1 "int (length tasks) + 1"] by simp
    with i l assms(2) show ?thesis by simp
  qed
next
  case (ToggleComplete i)
  with assms show ?thesis by (simp add: ids_toggle_complete) (simp add: toggle_complete_def)
next
  case (DeleteTask tid)
  with assms show ?thesis by simp
qed

lemma ids_foldl_no_delete:
  assumes "\<forall>a \<in> set acts. \<not> is_delete a" and "ids tasks = [1 .. int (length tasks)]"
  shows "ids (foldl step tasks acts) = [1 .. int (length (foldl step tasks acts))]"
  using assms
proof (induction acts arbitrary: tasks)
  case Nil
  then show ?case by simp
next
  case (Cons a acts)
  from Cons.prems have "ids (step tasks a) = [1 .. int (length (step tasks a))]"
    by (intro ids_step_no_delete) simp_all
  with Cons show ?case by simp
qed

lemma distinct_ids_delete_task:
  "distinct (ids tasks) \<Longrightarrow> distinct (ids (delete_task tid tasks))"
  by (simp add: ids_delete_task)

text \<open>
  What the assignment rule of line 177 gives: a task added with a non-empty
  description gets the id "number of tasks in the store plus one"; deleting keeps
  unique ids unique; and as long as nothing is deleted the ids in the store are
  \<open>1, \<dots>, n\<close> in insertion order.
\<close>

lemma ids_without_deletion:
  "(new_task \<noteq> [] \<longrightarrow>
      ids (fst (add_task new_task due prio now tasks)) = ids tasks @ [int (length tasks) + 1])
   \<and> (distinct (ids tasks) \<longrightarrow> distinct (ids (delete_task tid tasks)))
   \<and> ((\<forall>a \<in> set acts. \<not> is_delete a) \<longrightarrow>
        ids (run acts) = [1 .. int (length (run acts))] \<and> distinct (ids (run acts)))"
proof (intro conjI impI)
  assume "new_task \<noteq> []"
  then show "ids (fst (add_task new_task due prio now tasks)) =
      ids tasks @ [int (length tasks) + 1]"
    by (simp add: ids_add_task)
next
  assume "distinct (ids tasks)"
  then show "distinct (ids (delete_task tid tasks))"
    by (rule distinct_ids_delete_task)
next
  assume nd: "\<forall>a \<in> set acts. \<not> is_delete a"
  have "ids ([] :: task list) = [1 .. int (length ([] :: task list))]"
    by (simp add: ids_def)
  with nd show r: "ids (run acts) = [1 .. int (length (run acts))]"
    unfolding run_def by (rule ids_foldl_no_delete)
  show "distinct (ids (run acts))"
    by (subst r) simp
qed

text \<open>
  Claim C1: in every sequence of add and delete actions the ids in the store are
  unique and no id is used again after its task was deleted. The code does not keep
  this. After two tasks are added and the first is deleted, the store holds one task,
  with id 2, and the next task added gets the id \<open>1 + 1 = 2\<close> as well; the two tasks
  then share the form key of line 221, and one press of a delete button removes both
  (line 243). After one task is added and deleted, the next task gets the id 1 again.
\<close>

theorem ids_reused_after_delete:
  "ids (run [AddTask ''a'' 0 Low 0, AddTask ''b'' 0 Low 0, DeleteTask 1,
             AddTask ''c'' 0 Low 0]) = [2, 2]
   \<and> \<not> distinct (ids (run [AddTask ''a'' 0 Low 0, AddTask ''b'' 0 Low 0, DeleteTask 1,
                           AddTask ''c'' 0 Low 0]))
   \<and> run [AddTask ''a'' 0 Low 0, AddTask ''b'' 0 Low 0, DeleteTask 1,
           AddTask ''c'' 0 Low 0, DeleteTask 2] = []
   \<and> ids (run [AddTask ''a'' 0 Low 0]) = [1]
   \<and> ids (run [AddTask ''a'' 0 Low 0, DeleteTask 1]) = []
   \<and> ids (run [AddTask ''a'' 0 Low 0, DeleteTask 1, AddTask ''b'' 0 Low 0]) = [1]"
  by (simp add: run_def add_task_def delete_task_def ids_def)

text \<open>
  Claim C8: adding with an empty description shows a warning and leaves the store as it
  was; adding with a non-empty description appends one task, not completed, created
  at the current time, with the description, due date and priority entered.
\<close>

theorem add_task_empty_rejected:
  "add_task [] due prio now tasks = (tasks, Warning ''Please enter a task description'')
   \<and> (new_task \<noteq> [] \<longrightarrow>
        (\<exists>t. fst (add_task new_task due prio now tasks) = tasks @ [t]
             \<and> completed t = False \<and> created_at t = now \<and> description t = new_task
             \<and> due_date t = due \<and> priority t = prio)
        \<and> snd (add_task new_task due prio now tasks) = Success ''Task added successfully!'')"
  by (simp add: add_task_def)

theorem add_task_empty_rejected_witness:
  "''buy milk'' \<noteq> []
   \<and> add_task [] 3 Medium 9 [] = ([], Warning ''Please enter a task description'')
   \<and> fst (add_task ''buy milk'' 3 Medium 9 []) =
       [\<lparr>task_id = 1, description = ''buy milk'', due_date = 3, priority = Medium,
         created_at = 9, completed = False\<rparr>]
   \<and> snd (add_task ''buy milk'' 3 Medium 9 []) = Success ''Task added successfully!''"
  using add_task_empty_rejected [of 3 Medium 9 "[]" "''buy milk''"]
  by (simp add: add_task_def)

text \<open>
  Claim C10: deleting by id leaves no task with that id in the store (all tasks
  sharing the id go at once), keeps every other task as often as it occurred, and
  keeps the remaining tasks in their relative order.
\<close>

theorem delete_task_removes_all:
  "(\<forall>t \<in> set (delete_task tid tasks). task_id t \<noteq> tid)
   \<and> (\<forall>t. task_id t \<noteq> tid \<longrightarrow>
         count (mset (delete_task tid tasks)) t = count (mset tasks) t)
   \<and> subseq (delete_task tid tasks) tasks"
  by (simp add: delete_task_def)

theorem delete_task_removes_all_witness:
  "delete_task 2
     [\<lparr>task_id = 2, description = ''b'', due_date = 0, priority = Low, created_at = 0,
        completed = False\<rparr>,
      \<lparr>task_id = 3, description = ''c'', due_date = 0, priority = High, created_at = 1,
        completed = True\<rparr>,
      \<lparr>task_id = 2, description = ''d'', due_date = 0, priority = Low, created_at = 2,
        completed = False\<rparr>]
   = [\<lparr>task_id = 3, description = ''c'', due_date = 0, priority = High, created_at = 1,
        completed = True\<rparr>]
   \<and> subseq
       (delete_task 2
         [\<lparr>task_id = 2, description = ''b'', due_date = 0, priority = Low, created_at = 0,
            completed = False\<rparr>,
          \<lparr>task_id = 3, description = ''c'', due_date = 0, priority = High, created_at = 1,
            completed = True\<rparr>,
          \<lparr>task_id = 2, description = ''d'', due_date = 0, priority = Low, created_at = 2,
            completed = False\<rparr>])
       [\<lparr>task_id = 2, description = ''b'', due_date = 0, priority = Low, created_at = 0,
          completed = False\<rparr>,
        \<lparr>task_id = 3, description = ''c'', due_date = 0, priority = High, created_at = 1,
          completed = True\<rparr>,
        \<lparr>task_id = 2, description = ''d'', due_date = 0, priority = Low, created_at = 2,
          completed = False\<rparr>]"
  using delete_task_removes_all [of 2
     "[\<lparr>task_id = 2, description = ''b'', due_date = 0, priority = Low, created_at = 0,
        completed = False\<rparr>,
      \<lparr>task_id = 3, description = ''c'', due_date = 0, priority = High, created_at = 1,
        completed = True\<rparr>,
      \<lparr>task_id = 2, description = ''d'', due_date = 0, priority = Low, created_at = 2,
        completed = False\<rparr>]"]
  by (simp add: delete_task_def)

section \<open>Properties of the daily capacity estimate\<close>

lemma length_filter_split:
  "int (length xs) - int (length [x \<leftarrow> xs. P x]) = int (length [x \<leftarrow> xs. \<not> P x])"
  using sum_length_filter_compl [of P xs] by simp

lemma today_empty_iff:
  "([task \<leftarrow> tasks. due_date task = d] = []) = (\<forall>t \<in> set tasks. due_date t \<noteq> d)"
  by (simp add: filter_empty_conv)

text \<open>
  Claim C5: when no task is due today the result is the absent one; otherwise the
  completion rate is the number of today's completed tasks divided by the number of
  today's tasks, times 100, and lies between 0 and 100.
\<close>

theorem daily_rate:
  "((\<forall>t \<in> set tasks. due_date t \<noteq> date_of now_a) \<longrightarrow>
      analyze_daily_productivity now_a now_b tasks = None)
   \<and> ((\<exists>t \<in> set tasks. due_date t = date_of now_a) \<longrightarrow>
        (\<exists>today_tasks rate can.
           analyze_daily_productivity now_a now_b tasks = Some (today_tasks, rate, can)
           \<and> rate = real (length [t \<leftarrow> tasks. due_date t = date_of now_a \<and> completed t])
                    / real (length [t \<leftarrow> tasks. due_date t = date_of now_a]) * 100
           \<and> 0 \<le> rate \<and> rate \<le> 100))"
proof (intro conjI impI)
  assume "\<forall>t \<in> set tasks. due_date t \<noteq> date_of now_a"
  then show "analyze_daily_productivity now_a now_b tasks = None"
    by (simp add: analyze_daily_productivity_def today_empty_iff)
next
  assume ex: "\<exists>t \<in> set tasks. due_date t = date_of now_a"
  define tt where "tt = [t \<leftarrow> tasks. due_date t = date_of now_a]"
  define c where "c = length [t \<leftarrow> tasks. due_date t = date_of now_a \<and> completed t]"
  from ex have ne: "tt \<noteq> []" by (auto simp: tt_def filter_empty_conv)
  then have pos: "0 < length tt" by simp
  have c: "c = length [t \<leftarrow> tt. completed t]" by (simp add: c_def tt_def conj_commute)
  then have le: "c \<le> length tt" by simp
  have rate: "0 \<le> real c / real (length tt) * 100" "real c / real (length tt) * 100 \<le> 100"
    using pos le by (simp_all add: divide_le_eq)
  have "analyze_daily_productivity now_a now_b tasks =
      Some (tt, real c / real (length tt) * 100,
            (int (length tt) - int c) * 30 \<le> (24 - hour_of now_b) * 60)"
    using ne pos by (simp add: analyze_daily_productivity_def Let_def tt_def [symmetric] c)
  with rate show "\<exists>today_tasks rate can.
           analyze_daily_productivity now_a now_b tasks = Some (today_tasks, rate, can)
           \<and> rate = real (length [t \<leftarrow> tasks. due_date t = date_of now_a \<and> completed t])
                    / real (length [t \<leftarrow> tasks. due_date t = date_of now_a]) * 100
           \<and> 0 \<le> rate \<and> rate \<le> 100"
    by (simp add: c_def tt_def)
qed

theorem daily_rate_witness:
  "analyze_daily_productivity 288000000000 288000000001
     [\<lparr>task_id = 1, description = ''old'', due_date = 2, priority = High,
        created_at = 0, completed = False\<rparr>] = None
   \<and> analyze_daily_productivity 288000000000 288000000001
        [\<lparr>task_id = 1, description = ''report'', due_date = 3, priority = High,
           created_at = 0, completed = True\<rparr>,
         \<lparr>task_id = 2, description = ''old'', due_date = 2, priority = Low,
           created_at = 1, completed = True\<rparr>,
         \<lparr>task_id = 3, description = ''call'', due_date = 3, priority = Medium,
           created_at = 2, completed = False\<rparr>]
      = Some ([\<lparr>task_id = 1, description = ''report'', due_date = 3, priority = High,
                 created_at = 0, completed = True\<rparr>,
               \<lparr>task_id = 3, description = ''call'', due_date = 3, priority = Medium,
                 created_at = 2, completed = False\<rparr>], 50, True)"
  using daily_rate [of
      "[\<lparr>task_id = 1, description = ''old'', due_date = 2, priority = High,
        created_at = 0, completed = False\<rparr>]" 288000000000 288000000001]
    daily_rate [of
      "[\<lparr>task_id = 1, description = ''report'', due_date = 3, priority = High,
           created_at = 0, completed = True\<rparr>,
         \<lparr>task_id = 2, description = ''old'', due_date = 2, priority = Low,
           created_at = 1, completed = True\<rparr>,
         \<lparr>task_id = 3, description = ''call'', due_date = 3, priority = Medium,
           created_at = 2, completed = False\<rparr>]" 288000000000 288000000001]
  by (simp add: analyze_daily_productivity_def date_of_def hour_of_def us_per_day_def
      us_per_hour_def)

text \<open>
  Claim C6: when at least one task is due today, the verdict is true exactly when the
  number of today's tasks not completed, times 30 minutes, is at most 24 minus the
  current hour, times 60 minutes.
\<close>

theorem daily_feasible:
  "(\<exists>t \<in> set tasks. due_date t = date_of now_a) \<longrightarrow>
     (\<exists>today_tasks rate can.
        analyze_daily_productivity now_a now_b tasks = Some (today_tasks, rate, can)
        \<and> can = (int (length [t \<leftarrow> tasks. due_date t = date_of now_a \<and> \<not> completed t]) * 30
                   \<le> (24 - hour_of now_b) * 60))"
proof
  assume ex: "\<exists>t \<in> set tasks. due_date t = date_of now_a"
  define tt where "tt = [t \<leftarrow> tasks. due_date t = date_of now_a]"
  from ex have ne: "tt \<noteq> []" by (auto simp: tt_def filter_empty_conv)
  have r: "int (length tt) - int (length [t \<leftarrow> tt. completed t]) =
      int (length [t \<leftarrow> tasks. due_date t = date_of now_a \<and> \<not> completed t])"
  proof -
    have "[t \<leftarrow> tt. \<not> completed t] =
        [t \<leftarrow> tasks. due_date t = date_of now_a \<and> \<not> completed t]"
      by (simp add: tt_def conj_commute)
    then show ?thesis
      using length_filter_split [of tt completed] by simp
  qed
  have "analyze_daily_productivity now_a now_b tasks =
      Some (tt, real (length [t \<leftarrow> tt. completed t]) / real (length tt) * 100,
            (int (length tt) - int (length [t \<leftarrow> tt. completed t])) * 30
              \<le> (24 - hour_of now_b) * 60)"
    using ne by (simp add: analyze_daily_productivity_def Let_def tt_def [symmetric])
  then show "\<exists>today_tasks rate can.
        analyze_daily_productivity now_a now_b tasks = Some (today_tasks, rate, can)
        \<and> can = (int (length [t \<leftarrow> tasks. due_date t = date_of now_a \<and> \<not> completed t]) * 30
                   \<le> (24 - hour_of now_b) * 60)"
    by (simp add: r)
qed

theorem daily_feasible_witness:
  "analyze_daily_productivity 288000000000 288000000001
     [\<lparr>task_id = 1, description = ''report'', due_date = 3, priority = High,
        created_at = 0, completed = True\<rparr>,
      \<lparr>task_id = 3, description = ''call'', due_date = 3, priority = Medium,
        created_at = 2, completed = False\<rparr>]
   = Some ([\<lparr>task_id = 1, description = ''report'', due_date = 3, priority = High,
              created_at = 0, completed = True\<rparr>,
            \<lparr>task_id = 3, description = ''call'', due_date = 3, priority = Medium,
              created_at = 2, completed = False\<rparr>], 50, True)
   \<and> hour_of 342000000000 = 23
   \<and> analyze_daily_productivity 342000000000 342000000000
        [\<lparr>task_id = 1, description = ''a'', due_date = 3, priority = High,
           created_at = 0, completed = False\<rparr>,
         \<lparr>task_id = 2, description = ''b'', due_date = 3, priority = Low,
           created_at = 1, completed = False\<rparr>,
         \<lparr>task_id = 3, description = ''c'', due_date = 3, priority = Medium,
           created_at = 2, completed = False\<rparr>]
      = Some ([\<lparr>task_id = 1, description = ''a'', due_date = 3, priority = High,
                 created_at = 0, completed = False\<rparr>,
               \<lparr>task_id = 2, description = ''b'', due_date = 3, priority = Low,
                 created_at = 1, completed = False\<rparr>,
               \<lparr>task_id = 3, description = ''c'', due_date = 3, priority = Medium,
                 created_at = 2, completed = False\<rparr>], 0, False)"
  using daily_feasible [of
      "[\<lparr>task_id = 1, description = ''report'', due_date = 3, priority = High,
        created_at = 0, completed = True\<rparr>,
      \<lparr>task_id = 3, description = ''call'', due_date = 3, priority = Medium,
        created_at = 2, completed = False\<rparr>]" 288000000000 288000000001]
    daily_feasible [of
      "[\<lparr>task_id = 1, description = ''a'', due_date = 3, priority = High,
           created_at = 0, completed = False\<rparr>,
         \<lparr>task_id = 2, description = ''b'', due_date = 3, priority = Low,
           created_at = 1, completed = False\<rparr>,
         \<lparr>task_id = 3, description = ''c'', due_date = 3, priority = Medium,
           created_at = 2, completed = False\<rparr>]" 342000000000 342000000000]
  by (simp add: analyze_daily_productivity_def date_of_def hour_of_def us_per_day_def
      us_per_hour_def)

section \<open>Properties of the timetable\<close>

lemma timetable_loop_acc:
  "timetable_loop ts ct acc = acc @ timetable_loop ts ct []"
proof (induction ts arbitrary: ct acc)
  case Nil
  show ?case by simp
next
  case (Cons t ts)
  show ?case
    by (simp add: Let_def Cons.IH [of _ "acc @ _"] Cons.IH [of _ "[_]"])
qed

lemma timetable_loop_Cons:
  "timetable_loop (t # ts) ct [] =
     slot_for t ct # timetable_loop ts (add_minutes ct (time_allocation (priority t))) []"
  by (simp add: Let_def slot_for_def timetable_loop_acc [of _ _ "[_]"])

lemma timetable_loop_labels:
  "map (\<lambda>s. (slot_task s, slot_priority s)) (timetable_loop ts ct []) =
     map (\<lambda>t. (description t, priority t)) ts"
  by (induction ts arbitrary: ct) (simp_all add: timetable_loop_Cons slot_for_def del: timetable_loop.simps(2))

lemma timetable_loop_length: "length (timetable_loop ts ct []) = length ts"
  using arg_cong [OF timetable_loop_labels, of length ts ct] by simp

lemma timetable_loop_duration:
  "s \<in> set (timetable_loop ts ct []) \<Longrightarrow>
     duration s = time_allocation (slot_priority s)
     \<and> end_time s = add_minutes (start_time s) (duration s)"
  by (induction ts arbitrary: ct) (auto simp: timetable_loop_Cons slot_for_def simp del: timetable_loop.simps(2))

lemma timetable_loop_start:
  "ts \<noteq> [] \<Longrightarrow> start_time (timetable_loop ts ct [] ! 0) = ct"
  by (cases ts) (simp_all add: timetable_loop_Cons slot_for_def del: timetable_loop.simps(2))

lemma timetable_loop_chain:
  "Suc i < length ts \<Longrightarrow>
     start_time (timetable_loop ts ct [] ! Suc i) = end_time (timetable_loop ts ct [] ! i)"
proof (induction ts arbitrary: ct i)
  case Nil
  then show ?case by simp
next
  case (Cons t ts)
  show ?case
  proof (cases i)
    case 0
    with Cons.prems have "ts \<noteq> []" by auto
    with 0 show ?thesis
      by (simp add: timetable_loop_Cons timetable_loop_start slot_for_def
          del: timetable_loop.simps(2))
  next
    case (Suc j)
    with Cons.prems have "Suc j < length ts" by simp
    from Cons.IH [OF this] Suc show ?thesis
      by (simp add: timetable_loop_Cons del: timetable_loop.simps(2))
  qed
qed

lemma priority_order_eq_iff: "priority_order p = priority_order q \<longleftrightarrow> p = q"
  by (cases p; cases q) simp_all

lemma labels_filter:
  assumes "map (\<lambda>s. (slot_task s, slot_priority s)) slots =
           map (\<lambda>t. (description t, priority t)) ts"
  shows "map slot_task [s \<leftarrow> slots. slot_priority s = p] =
         map description [t \<leftarrow> ts. priority t = p]"
proof -
  have "map slot_task [s \<leftarrow> slots. slot_priority s = p] =
      map fst [x \<leftarrow> map (\<lambda>s. (slot_task s, slot_priority s)) slots. snd x = p]"
    by (simp add: filter_map comp_def)
  also have "\<dots> = map fst [x \<leftarrow> map (\<lambda>t. (description t, priority t)) ts. snd x = p]"
    by (simp only: assms)
  also have "\<dots> = map description [t \<leftarrow> ts. priority t = p]"
    by (simp add: filter_map comp_def)
  finally show ?thesis .
qed

text \<open>
  Claim C4: for every task list and start time \<open>T\<close>, the timetable has one slot for each
  task due today and not completed; the slots are sorted by priority in the order High,
  Medium, Low; among slots of one priority the tasks keep their original order; a
  slot lasts 60, 45 or 30 minutes for High, Medium or Low; the first slot starts at
  \<open>T\<close> and every later slot starts when the one before it ends. With no such task
  there is no timetable.
\<close>

theorem timetable_slots:
  "([t \<leftarrow> tasks. due_date t = date_of now_a \<and> \<not> completed t] = [] \<longrightarrow>
      generate_timetable now_a T tasks = None)
   \<and> ([t \<leftarrow> tasks. due_date t = date_of now_a \<and> \<not> completed t] \<noteq> [] \<longrightarrow>
        (\<exists>slots. generate_timetable now_a T tasks = Some slots
           \<and> length slots = length [t \<leftarrow> tasks. due_date t = date_of now_a \<and> \<not> completed t]
           \<and> sorted (map (\<lambda>s. priority_order (slot_priority s)) slots)
           \<and> priority_order High < priority_order Medium
           \<and> priority_order Medium < priority_order Low
           \<and> (\<forall>p. map slot_task [s \<leftarrow> slots. slot_priority s = p] =
                    map description
                      [t \<leftarrow> tasks. (due_date t = date_of now_a \<and> \<not> completed t)
                                      \<and> priority t = p])
           \<and> (\<forall>s \<in> set slots.
                  duration s = (case slot_priority s of High \<Rightarrow> 60 | Medium \<Rightarrow> 45 | Low \<Rightarrow> 30)
                  \<and> end_time s = add_minutes (start_time s) (duration s))
           \<and> start_time (slots ! 0) = T
           \<and> (\<forall>i. 0 < i \<and> i < length slots \<longrightarrow>
                  start_time (slots ! i) = end_time (slots ! (i - 1)))))"
proof (intro conjI impI)
  assume "[t \<leftarrow> tasks. due_date t = date_of now_a \<and> \<not> completed t] = []"
  then show "generate_timetable now_a T tasks = None"
    by (simp add: generate_timetable_def)
next
  define q where "q = [t \<leftarrow> tasks. due_date t = date_of now_a \<and> \<not> completed t]"
  define ts where "ts = sort_key (\<lambda>x. priority_order (priority x)) q"
  define slots where "slots = timetable_loop ts T []"
  assume "[t \<leftarrow> tasks. due_date t = date_of now_a \<and> \<not> completed t] \<noteq> []"
  then have ne: "q \<noteq> []" by (simp add: q_def)
  then have g: "generate_timetable now_a T tasks = Some slots"
    by (simp add: generate_timetable_def Let_def q_def [symmetric] ts_def slots_def)
  have len_ts: "length ts = length q" by (simp add: ts_def)
  with ne have ts_ne: "ts \<noteq> []" by auto
  have len: "length slots = length q"
    by (simp add: slots_def timetable_loop_length len_ts)
  have lab: "map (\<lambda>s. (slot_task s, slot_priority s)) slots =
      map (\<lambda>t. (description t, priority t)) ts"
    by (simp add: slots_def timetable_loop_labels)
  have "map (\<lambda>s. priority_order (slot_priority s)) slots =
      map (\<lambda>x. priority_order (snd x)) (map (\<lambda>s. (slot_task s, slot_priority s)) slots)"
    by (simp add: comp_def)
  also have "\<dots> = map (\<lambda>x. priority_order (priority x)) ts"
    by (simp only: lab) (simp add: comp_def)
  finally have srt: "sorted (map (\<lambda>s. priority_order (slot_priority s)) slots)"
    by (simp add: ts_def)
  have stable: "map slot_task [s \<leftarrow> slots. slot_priority s = p] =
      map description [t \<leftarrow> tasks. (due_date t = date_of now_a \<and> \<not> completed t)
                                      \<and> priority t = p]" for p
  proof -
    have "[t \<leftarrow> ts. priority t = p] =
        [t \<leftarrow> ts. priority_order (priority t) = priority_order p]"
      by (simp add: priority_order_eq_iff)
    also have "\<dots> = [t \<leftarrow> q. priority_order (priority t) = priority_order p]"
      unfolding ts_def by (rule sort_key_stable)
    also have "\<dots> = [t \<leftarrow> q. priority t = p]"
      by (simp add: priority_order_eq_iff)
    finally have "[t \<leftarrow> ts. priority t = p] = [t \<leftarrow> q. priority t = p]" .
    with labels_filter [OF lab, of p] show ?thesis
      by (simp add: q_def conj_commute)
  qed
  have dur: "duration s = (case slot_priority s of High \<Rightarrow> 60 | Medium \<Rightarrow> 45 | Low \<Rightarrow> 30)
      \<and> end_time s = add_minutes (start_time s) (duration s)" if "s \<in> set slots" for s
    using timetable_loop_duration [of s ts T] that
    by (cases "slot_priority s") (simp_all add: slots_def)
  have start: "start_time (slots ! 0) = T"
    using ts_ne by (simp add: slots_def timetable_loop_start)
  have chain: "start_time (slots ! i) = end_time (slots ! (i - 1))"
    if "0 < i \<and> i < length slots" for i
  proof -
    from that obtain j where j: "i = Suc j" by (cases i) auto
    with that len len_ts have "Suc j < length ts" by simp
    from timetable_loop_chain [OF this, of T] j show ?thesis
      by (simp add: slots_def)
  qed
  from g len srt stable dur start chain
  show "\<exists>slots. generate_timetable now_a T tasks = Some slots
           \<and> length slots = length [t \<leftarrow> tasks. due_date t = date_of now_a \<and> \<not> completed t]
           \<and> sorted (map (\<lambda>s. priority_order (slot_priority s)) slots)
           \<and> priority_order High < priority_order Medium
           \<and> priority_order Medium < priority_order Low
           \<and> (\<forall>p. map slot_task [s \<leftarrow> slots. slot_priority s = p] =
                    map description
                      [t \<leftarrow> tasks. (due_date t = date_of now_a \<and> \<not> completed t)
                                      \<and> priority t = p])
           \<and> (\<forall>s \<in> set slots.
                  duration s = (case slot_priority s of High \<Rightarrow> 60 | Medium \<Rightarrow> 45 | Low \<Rightarrow> 30)
                  \<and> end_time s = add_minutes (start_time s) (duration s))
           \<and> start_time (slots ! 0) = T
           \<and> (\<forall>i. 0 < i \<and> i < length slots \<longrightarrow>
                  start_time (slots ! i) = end_time (slots ! (i - 1)))"
    by (simp add: q_def)
qed

theorem timetable_slots_witness:
  "[t \<leftarrow> [\<lparr>task_id = 1, description = ''report'', due_date = 3, priority = High,
              created_at = 0, completed = False\<rparr>,
            \<lparr>task_id = 2, description = ''tidy'', due_date = 3, priority = Low,
              created_at = 1, completed = False\<rparr>,
            \<lparr>task_id = 3, description = ''call'', due_date = 3, priority = Medium,
              created_at = 2, completed = False\<rparr>].
      due_date t = date_of 288000000000 \<and> \<not> completed t] \<noteq> []
   \<and> generate_timetable 288000000000 288000000001
        [\<lparr>task_id = 1, description = ''report'', due_date = 3, priority = High,
           created_at = 0, completed = False\<rparr>,
         \<lparr>task_id = 2, description = ''tidy'', due_date = 3, priority = Low,
           created_at = 1, completed = False\<rparr>,
         \<lparr>task_id = 3, description = ''call'', due_date = 3, priority = Medium,
           created_at = 2, completed = False\<rparr>]
      = Some [\<lparr>slot_task = ''report'', slot_priority = High, start_time = 288000000001,
                end_time = 291600000001, duration = 60\<rparr>,
              \<lparr>slot_task = ''call'', slot_priority = Medium, start_time = 291600000001,
                end_time = 294300000001, duration = 45\<rparr>,
              \<lparr>slot_task = ''tidy'', slot_priority = Low, start_time = 294300000001,
                end_time = 296100000001, duration = 30\<rparr>]"
  using timetable_slots [where now_a = 288000000000 and T = 288000000001 and tasks =
      "[\<lparr>task_id = 1, description = ''report'', due_date = 3, priority = High,
           created_at = 0, completed = False\<rparr>,
         \<lparr>task_id = 2, description = ''tidy'', due_date = 3, priority = Low,
           created_at = 1, completed = False\<rparr>,
         \<lparr>task_id = 3, description = ''call'', due_date = 3, priority = Medium,
           created_at = 2, completed = False\<rparr>]"]
  by (simp add: generate_timetable_def date_of_def us_per_day_def add_minutes_def
      us_per_minute_def)

section \<open>Properties of the feature table\<close>

lemma us_per_day_pos: "0 < us_per_day"
  by (simp add: us_per_day_def)

lemma days_floor:
  "task_days_to_due t * us_per_day \<le> midnight (due_date t) - created_at t
   \<and> midnight (due_date t) - created_at t < (task_days_to_due t + 1) * us_per_day"
proof -
  define x where "x = midnight (due_date t) - created_at t"
  have "x div us_per_day * us_per_day \<le> x"
    using us_per_day_pos pos_mod_sign [of us_per_day x] div_mult_mod_eq [of x us_per_day]
    by linarith
  moreover have "x < (x div us_per_day + 1) * us_per_day"
  proof -
    have "x mod us_per_day < us_per_day"
      using us_per_day_pos by (rule pos_mod_bound)
    then show ?thesis
      using div_mult_mod_eq [of x us_per_day]
      by (simp only: distrib_right mult_1)
  qed
  ultimately show ?thesis by (simp add: task_days_to_due_def timedelta_days_def x_def)
qed

lemma days_by_date:
  "task_days_to_due t =
     due_date t - date_of (created_at t) - (if created_at t mod us_per_day = 0 then 0 else 1)"
proof -
  define U where "U = us_per_day"
  define c where "c = created_at t"
  define d where "d = due_date t"
  have U: "0 < U" by (simp add: U_def us_per_day_pos)
  have c: "c = (c div U) * U + c mod U" by simp
  have r: "0 \<le> c mod U" "c mod U < U" using U by simp_all
  have "(d * U - c) div U = (d - c div U - (if c mod U = 0 then 0 else 1))"
  proof (cases "c mod U = 0")
    case True
    then have "d * U - c = (d - c div U) * U" using c by (simp add: algebra_simps)
    with U True show ?thesis by simp
  next
    case False
    with r have p: "0 < c mod U" by simp
    have "d * U - c = (d - c div U - 1) * U + (U - c mod U)"
      using c by (simp add: algebra_simps)
    moreover have "(U - c mod U) div U = 0"
      using p r by (intro div_pos_pos_trivial) simp_all
    then have "((d - c div U - 1) * U + (U - c mod U)) div U = d - c div U - 1"
      using U by simp
    ultimately show ?thesis using False by simp
  qed
  then show ?thesis
    by (simp add: task_days_to_due_def timedelta_days_def midnight_def date_of_def U_def c_def d_def)
qed

lemma make_row_fields:
  "days_to_due (make_row t code prob) = task_days_to_due t"
  "completion_probability (make_row t code prob) = prob"
  "priority_encoded (make_row t code prob) = code"
  "is_completed (make_row t code prob) = (if completed t then 1 else 0)"
  "task.truncate (make_row t code prob) = t"
  by (simp_all add: make_row_def task.extend_def task.truncate_def)

lemma analyze_productivity_rows:
  assumes "analyze_productivity clf tasks = Some df"
  shows "length df = length tasks"
    and "i < length tasks \<Longrightarrow> days_to_due (df ! i) = task_days_to_due (tasks ! i)"
    and "i < length tasks \<Longrightarrow> task.truncate (df ! i) = tasks ! i"
proof -
  from assms obtain probs where
    p: "length probs = length tasks" and
    df: "df = map (\<lambda>(task, code, prob). make_row task code prob)
                 (zip tasks (zip (fit_transform (map priority tasks)) probs))"
    by (auto simp: analyze_productivity_def Let_def split: if_splits option.splits)
  have l: "length (fit_transform (map priority tasks)) = length tasks"
    by (simp add: fit_transform_def)
  from p l show "length df = length tasks" by (simp add: df)
  from p l show "i < length tasks \<Longrightarrow> days_to_due (df ! i) = task_days_to_due (tasks ! i)"
    by (simp add: df make_row_fields)
  from p l show "i < length tasks \<Longrightarrow> task.truncate (df ! i) = tasks ! i"
    by (simp add: df make_row_fields)
qed

text \<open>
  Claim C2, amended: for every task the column \<^verbatim>\<open>days_to_due\<close> is the floor of the signed
  difference between the midnight of the due date and the creation time stamp, in
  days, with no clamping. So a task created on day \<open>D\<close> with due date \<open>D + k\<close> gets \<open>k\<close>
  when it was created at midnight exactly and \<open>k - 1\<close> otherwise.
\<close>

theorem days_to_due_floor:
  "analyze_productivity clf tasks = Some df \<longrightarrow>
     length df = length tasks
     \<and> (\<forall>i < length tasks.
           days_to_due (df ! i) * us_per_day
             \<le> midnight (due_date (tasks ! i)) - created_at (tasks ! i)
           \<and> midnight (due_date (tasks ! i)) - created_at (tasks ! i)
             < (days_to_due (df ! i) + 1) * us_per_day
           \<and> days_to_due (df ! i) =
               due_date (tasks ! i) - date_of (created_at (tasks ! i))
               - (if created_at (tasks ! i) mod us_per_day = 0 then 0 else 1))"
proof
  assume a: "analyze_productivity clf tasks = Some df"
  show "length df = length tasks
     \<and> (\<forall>i < length tasks.
           days_to_due (df ! i) * us_per_day
             \<le> midnight (due_date (tasks ! i)) - created_at (tasks ! i)
           \<and> midnight (due_date (tasks ! i)) - created_at (tasks ! i)
             < (days_to_due (df ! i) + 1) * us_per_day
           \<and> days_to_due (df ! i) =
               due_date (tasks ! i) - date_of (created_at (tasks ! i))
               - (if created_at (tasks ! i) mod us_per_day = 0 then 0 else 1))"
  proof (intro conjI allI impI)
    show "length df = length tasks" by (rule analyze_productivity_rows(1) [OF a])
  next
    fix i assume "i < length tasks"
    then have d: "days_to_due (df ! i) = task_days_to_due (tasks ! i)"
      by (rule analyze_productivity_rows(2) [OF a])
    show "days_to_due (df ! i) * us_per_day
             \<le> midnight (due_date (tasks ! i)) - created_at (tasks ! i)"
      using days_floor [of "tasks ! i"] by (simp add: d)
    show "midnight (due_date (tasks ! i)) - created_at (tasks ! i)
             < (days_to_due (df ! i) + 1) * us_per_day"
      using days_floor [of "tasks ! i"] by (simp add: d)
    show "days_to_due (df ! i) =
               due_date (tasks ! i) - date_of (created_at (tasks ! i))
               - (if created_at (tasks ! i) mod us_per_day = 0 then 0 else 1)"
      unfolding d by (rule days_by_date)
  qed
qed

text \<open>
  Claim C2, as stated: a task created on day \<open>D\<close> with due date \<open>D + 5\<close> yields 5, and
  with due date \<open>D - 3\<close> yields \<open>-3\<close>. A task created on day 10 at 09:30 yields 4 and
  \<open>-4\<close>.
\<close>

theorem days_to_due_off_by_one:
  "date_of (created_at \<lparr>task_id = 1, description = ''a'', due_date = 15, priority = Low,
                         created_at = 898200000000, completed = False\<rparr>) = 10
   \<and> task_days_to_due \<lparr>task_id = 1, description = ''a'', due_date = 10 + 5, priority = Low,
                        created_at = 898200000000, completed = False\<rparr> = 4
   \<and> task_days_to_due \<lparr>task_id = 1, description = ''a'', due_date = 10 + 5, priority = Low,
                        created_at = 898200000000, completed = False\<rparr> \<noteq> 5
   \<and> task_days_to_due \<lparr>task_id = 1, description = ''a'', due_date = 10 - 3, priority = Low,
                        created_at = 898200000000, completed = False\<rparr> = - 4
   \<and> task_days_to_due \<lparr>task_id = 1, description = ''a'', due_date = 10 - 3, priority = Low,
                        created_at = 898200000000, completed = False\<rparr> \<noteq> - 3"
  by (simp add: task_days_to_due_def timedelta_days_def midnight_def date_of_def
      us_per_day_def)

theorem days_to_due_floor_witness:
  "analyze_productivity (\<lambda>X y. Some [1 / 2, 1 / 4])
     [\<lparr>task_id = 1, description = ''a'', due_date = 15, priority = Low,
        created_at = 898200000000, completed = False\<rparr>,
      \<lparr>task_id = 2, description = ''b'', due_date = 15, priority = High,
        created_at = 864000000000, completed = True\<rparr>]
   = Some
     [\<lparr>task_id = 1, description = ''a'', due_date = 15, priority = Low,
        created_at = 898200000000, completed = False, days_to_due = 4, is_completed = 0,
        priority_encoded = 1, completion_probability = 1 / 2\<rparr>,
      \<lparr>task_id = 2, description = ''b'', due_date = 15, priority = High,
        created_at = 864000000000, completed = True, days_to_due = 5, is_completed = 1,
        priority_encoded = 0, completion_probability = 1 / 4\<rparr>]"
  using days_to_due_floor [where clf = "\<lambda>X y. Some [1 / 2, 1 / 4]" and tasks =
     "[\<lparr>task_id = 1, description = ''a'', due_date = 15, priority = Low,
        created_at = 898200000000, completed = False\<rparr>,
      \<lparr>task_id = 2, description = ''b'', due_date = 15, priority = High,
        created_at = 864000000000, completed = True\<rparr>]"]
  by (simp add: analyze_productivity_def fit_transform_def label_classes_def make_row_def
      task.extend_def task_days_to_due_def timedelta_days_def midnight_def us_per_day_def)

text \<open>
  Claim C7: the high-risk rows are exactly the rows whose predicted probability is
  below 0.3, each as often as it occurs and in the table's order; for the
  probabilities 0.1, 0.5, 0.29, 0.31 they are the first and the third row.
\<close>

theorem high_risk_below_threshold:
  "set (high_risk_tasks df) = {row \<in> set df. completion_probability row < 3 / 10}
   \<and> (\<forall>row. completion_probability row < 3 / 10 \<longrightarrow>
          count (mset (high_risk_tasks df)) row = count (mset df) row)
   \<and> subseq (high_risk_tasks df) df
   \<and> (map completion_probability df = [1 / 10, 1 / 2, 29 / 100, 31 / 100] \<longrightarrow>
        high_risk_tasks df = [df ! 0, df ! 2])"
proof (intro conjI impI)
  assume "map completion_probability df = [1 / 10, 1 / 2, 29 / 100, 31 / 100]"
  then obtain a b c d where "df = [a, b, c, d]"
    and "completion_probability a = 1 / 10" and "completion_probability b = 1 / 2"
    and "completion_probability c = 29 / 100" and "completion_probability d = 31 / 100"
    by (auto simp: map_eq_Cons_conv)
  then show "high_risk_tasks df = [df ! 0, df ! 2]"
    by (simp add: high_risk_tasks_def)
qed (simp_all add: high_risk_tasks_def)

theorem high_risk_below_threshold_witness:
  "map completion_probability
     [make_row \<lparr>task_id = 1, description = ''a'', due_date = 1, priority = Low,
                 created_at = 0, completed = False\<rparr> 0 (1 / 10),
      make_row \<lparr>task_id = 2, description = ''b'', due_date = 1, priority = Low,
                 created_at = 0, completed = True\<rparr> 0 (1 / 2),
      make_row \<lparr>task_id = 3, description = ''c'', due_date = 1, priority = Low,
                 created_at = 0, completed = False\<rparr> 0 (29 / 100),
      make_row \<lparr>task_id = 4, description = ''d'', due_date = 1, priority = Low,
                 created_at = 0, completed = True\<rparr> 0 (31 / 100)]
     = [1 / 10, 1 / 2, 29 / 100, 31 / 100]
   \<and> map task_id (high_risk_tasks
     [make_row \<lparr>task_id = 1, description = ''a'', due_date = 1, priority = Low,
                 created_at = 0, completed = False\<rparr> 0 (1 / 10),
      make_row \<lparr>task_id = 2, description = ''b'', due_date = 1, priority = Low,
                 created_at = 0, completed = True\<rparr> 0 (1 / 2),
      make_row \<lparr>task_id = 3, description = ''c'', due_date = 1, priority = Low,
                 created_at = 0, completed = False\<rparr> 0 (29 / 100),
      make_row \<lparr>task_id = 4, description = ''d'', due_date = 1, priority = Low,
                 created_at = 0, completed = True\<rparr> 0 (31 / 100)]) = [1, 3]"
  using high_risk_below_threshold [of
     "[make_row \<lparr>task_id = 1, description = ''a'', due_date = 1, priority = Low,
                 created_at = 0, completed = False\<rparr> 0 (1 / 10),
      make_row \<lparr>task_id = 2, description = ''b'', due_date = 1, priority = Low,
                 created_at = 0, completed = True\<rparr> 0 (1 / 2),
      make_row \<lparr>task_id = 3, description = ''c'', due_date = 1, priority = Low,
                 created_at = 0, completed = False\<rparr> 0 (29 / 100),
      make_row \<lparr>task_id = 4, description = ''d'', due_date = 1, priority = Low,
                 created_at = 0, completed = True\<rparr> 0 (31 / 100)]"]
  by (simp add: high_risk_tasks_def make_row_def task.extend_def)

section \<open>Properties of the analysis functions on a store of objects\<close>

lemma preserved_refl: "preserved h h"
  by (simp add: preserved_def)

lemma preserved_trans: "preserved h h1 \<Longrightarrow> preserved h1 h2 \<Longrightarrow> preserved h h2"
  by (auto simp: preserved_def)

lemma preserved_put:
  "preserved h0 h \<Longrightarrow> length h0 \<le> a \<Longrightarrow> preserved h0 (put a v h)"
  by (auto simp: preserved_def put_def)

lemma preserved_list_append:
  "preserved h0 h \<Longrightarrow> length h0 \<le> l \<Longrightarrow> preserved h0 (list_append l a h)"
  by (auto simp: list_append_def preserved_put split: option.splits)

lemma preserved_timetable_loop_heap:
  "preserved h0 h \<Longrightarrow> length h0 \<le> tt \<Longrightarrow> preserved h0 (timetable_loop_heap ps ct tt h)"
proof (induction ps arbitrary: ct h)
  case Nil
  then show ?case by simp
next
  case (Cons p ps)
  obtain a t where p: "p = (a, t)" by (cases p)
  define s where "s = \<lparr>slot_task = description t, slot_priority = priority t,
      start_time = ct, end_time = add_minutes ct (time_allocation (priority t)),
      duration = time_allocation (priority t)\<rparr>"
  have "preserved h (h @ [SlotObj s])"
    by (simp add: preserved_def nth_append)
  with Cons.prems(1) have "preserved h0 (h @ [SlotObj s])"
    by (rule preserved_trans)
  then have "preserved h0 (list_append tt (length h) (h @ [SlotObj s]))"
    using Cons.prems(2) by (rule preserved_list_append)
  from Cons.IH [OF this Cons.prems(2)] show ?case
    by (simp add: p Let_def alloc_def s_def)
qed

lemma those_eq_Some: "those os = Some ys \<longleftrightarrow> os = map Some ys"
proof (induction os arbitrary: ys)
  case Nil
  show ?case by auto
next
  case (Cons x os)
  show ?case
  proof (cases x)
    case None
    then show ?thesis by (cases ys) simp_all
  next
    case (Some y)
    with Cons.IH show ?thesis by (cases ys) auto
  qed
qed

lemma get_task_preserved:
  "preserved h h' \<Longrightarrow> get_task h a = Some t \<Longrightarrow> get_task h' a = Some t"
  by (auto simp: get_task_def lookup_def preserved_def split: if_splits option.splits)

lemma get_list_preserved:
  "preserved h h' \<Longrightarrow> get_list h a = Some as \<Longrightarrow> get_list h' a = Some as"
  by (auto simp: get_list_def lookup_def preserved_def split: if_splits option.splits)

lemma read_tasks_preserved:
  assumes "preserved h h'" and "read_tasks h l = Some ps"
  shows "read_tasks h' l = Some ps"
proof -
  from assms(2) obtain as ts where l: "get_list h l = Some as"
    and ts: "those (map (get_task h) as) = Some ts" and ps: "ps = zip as ts"
    by (auto simp: read_tasks_def split: option.splits)
  from ts have m: "map (get_task h) as = map Some ts" by (simp add: those_eq_Some)
  then have len: "length as = length ts"
    using map_eq_imp_length_eq by blast
  have "map (get_task h') as = map Some ts"
  proof (rule nth_equalityI)
    from len show "length (map (get_task h') as) = length (map Some ts)" by simp
  next
    fix i assume "i < length (map (get_task h') as)"
    then have i: "i < length as" by simp
    have "map (get_task h) as ! i = map Some ts ! i" by (simp only: m)
    with i len have "get_task h (as ! i) = Some (ts ! i)" by simp
    with assms(1) have "get_task h' (as ! i) = Some (ts ! i)" by (rule get_task_preserved)
    with i len show "map (get_task h') as ! i = map Some ts ! i" by simp
  qed
  then have "those (map (get_task h') as) = Some ts" by (simp add: those_eq_Some)
  with get_list_preserved [OF assms(1) l] ps show ?thesis
    by (simp add: read_tasks_def)
qed

lemma preserved_analyze_daily_productivity_heap:
  "analyze_daily_productivity_heap now_a now_b tasks h = Some (h', r) \<Longrightarrow> preserved h h'"
  by (auto simp: analyze_daily_productivity_heap_def Let_def alloc_def preserved_def
      nth_append split: option.splits if_splits)

lemma preserved_generate_timetable_heap:
  assumes "generate_timetable_heap now_a now_b tasks h = Some (h', r)"
  shows "preserved h h'"
proof -
  from assms obtain ps where ps: "read_tasks h tasks = Some ps"
    by (auto simp: generate_timetable_heap_def split: option.splits)
  define sel where
    "sel = [(a, task) \<leftarrow> ps. due_date task = date_of now_a \<and> \<not> completed task]"
  define h1 where "h1 = h @ [ListObj (map fst sel)]"
  have p1: "preserved h h1" by (simp add: h1_def preserved_def nth_append)
  show ?thesis
  proof (cases "sel = []")
    case True
    with assms ps p1 show ?thesis
      by (simp add: generate_timetable_heap_def Let_def alloc_def sel_def [symmetric]
          h1_def)
  next
    case False
    define sorted where "sorted = sort_key (\<lambda>(a, x). priority_order (priority x)) sel"
    define h2 where "h2 = put (length h) (ListObj (map fst sorted)) h1"
    define h3 where "h3 = h2 @ [ListObj []]"
    from p1 have p2: "preserved h h2" unfolding h2_def by (rule preserved_put) simp
    have "preserved h2 h3" by (simp add: h3_def preserved_def nth_append)
    with p2 have p3: "preserved h h3" by (rule preserved_trans)
    have l: "length h \<le> length h2" using p2 by (simp add: preserved_def)
    from assms ps False have "h' = timetable_loop_heap sorted now_b (length h2) h3"
      by (simp add: generate_timetable_heap_def Let_def alloc_def sel_def [symmetric]
          h1_def [symmetric] sorted_def [symmetric] h2_def [symmetric] h3_def [symmetric])
    with preserved_timetable_loop_heap [OF p3 l] show ?thesis by simp
  qed
qed

lemma preserved_analyze_productivity_heap:
  assumes "analyze_productivity_heap clf tasks h = Some (h', r)"
  shows "preserved h h'"
proof -
  have a: "preserved h (h @ [v])" for v by (simp add: preserved_def nth_append)
  have b: "preserved h (put (length h) v g)" if "preserved h g" for v g
    using that by (rule preserved_put) simp
  from assms show ?thesis
    by (auto simp: analyze_productivity_heap_def Let_def alloc_def preserved_refl
        intro!: a b split: option.splits if_splits)
qed

lemma read_tasks_member:
  assumes "read_tasks h l = Some ps" and "(a, t) \<in> set ps"
  shows "get_task h a = Some t"
proof -
  from assms(1) obtain as ts where ts: "those (map (get_task h) as) = Some ts"
    and ps: "ps = zip as ts"
    by (auto simp: read_tasks_def split: option.splits)
  from ts have m: "map (get_task h) as = map Some ts" by (simp add: those_eq_Some)
  then have len: "length as = length ts" using map_eq_imp_length_eq by blast
  from assms(2) ps obtain i where i: "i < length as" "a = as ! i" "t = ts ! i"
    using len by (auto simp: set_zip)
  have "map (get_task h) as ! i = map Some ts ! i" by (simp only: m)
  with i len show ?thesis by simp
qed

lemma those_get_task_pairs:
  assumes "\<forall>(a, t) \<in> set qs. get_task g a = Some t"
  shows "those (map (get_task g) (map fst qs)) = Some (map snd qs)"
proof -
  have "map (get_task g) (map fst qs) = map Some (map snd qs)"
    using assms by (induction qs) auto
  then show ?thesis by (simp only: those_eq_Some)
qed

lemma read_tasks_fresh_list:
  assumes "\<forall>(a, t) \<in> set qs. get_task h a = Some t"
  shows "read_tasks (h @ [ListObj (map fst qs)]) (length h) = Some qs"
proof -
  let ?g = "h @ [ListObj (map fst qs)]"
  have p: "preserved h ?g" by (simp add: preserved_def nth_append)
  have "\<forall>(a, t) \<in> set qs. get_task ?g a = Some t"
    using assms get_task_preserved [OF p] by auto
  then have "those (map (get_task ?g) (map fst qs)) = Some (map snd qs)"
    by (rule those_get_task_pairs)
  moreover have "get_list ?g (length h) = Some (map fst qs)"
    by (simp add: get_list_def lookup_def)
  ultimately show ?thesis
    by (simp add: read_tasks_def zip_map_fst_snd)
qed

lemma filter_pairs_snd:
  "map snd [(a, t) \<leftarrow> ps. P t] = [t \<leftarrow> map snd ps. P t]"
  by (induction ps) auto

lemma analyze_daily_productivity_heap_refines:
  assumes "read_tasks h tasks = Some ps"
  shows "\<exists>h' r. analyze_daily_productivity_heap now_a now_b tasks h = Some (h', r)
           \<and> map_option (\<lambda>(tt, rate, can). (list_tasks h' tt, rate, can)) r =
               map_option (\<lambda>(ts, rate, can). (Some ts, rate, can))
                 (analyze_daily_productivity now_a now_b (map snd ps))"
proof -
  define sel where "sel = [(a, task) \<leftarrow> ps. due_date task = date_of now_a]"
  define h1 where "h1 = h @ [ListObj (map fst sel)]"
  define K where "K = int (length [t \<leftarrow> map snd sel. completed t])"
  define R where "R = (if int (length sel) > 0
      then (real_of_int K / real_of_int (int (length sel))) * 100 else 0)"
  define C where "C = ((int (length sel) - K) * 30 \<le> (24 - hour_of now_b) * 60)"
  have sel_snd: "[t \<leftarrow> map snd ps. due_date t = date_of now_a] = map snd sel"
    unfolding sel_def by (rule filter_pairs_snd [symmetric])
  have "\<forall>(a, t) \<in> set sel. get_task h a = Some t"
    using read_tasks_member [OF assms] by (auto simp: sel_def)
  then have "read_tasks h1 (length h) = Some sel"
    unfolding h1_def by (rule read_tasks_fresh_list)
  then have lt: "list_tasks h1 (length h) = Some (map snd sel)"
    by (simp add: list_tasks_def)
  have c: "int (length [(a, task) \<leftarrow> sel. completed task]) = K"
    using arg_cong [OF filter_pairs_snd [of completed sel], of length] by (simp add: K_def)
  have pure: "analyze_daily_productivity now_a now_b (map snd ps) =
      (if sel = [] then None else Some (map snd sel, R, C))"
    unfolding analyze_daily_productivity_def Let_def sel_snd
    by (simp add: K_def R_def C_def)
  have heap: "analyze_daily_productivity_heap now_a now_b tasks h =
      Some (h1, if sel = [] then None else Some (length h, R, C))"
    unfolding analyze_daily_productivity_heap_def Let_def
    using assms by (simp add: alloc_def sel_def [symmetric] c h1_def R_def C_def)
  show ?thesis
    unfolding pure heap using lt by simp
qed

lemma read_slots_step:
  assumes "read_slots h tt = Some ss"
  shows "read_slots (list_append tt (length h) (h @ [SlotObj s])) tt = Some (ss @ [s])"
proof -
  from assms obtain as where as: "get_list h tt = Some as"
    and ss: "those (map (get_slot h) as) = Some ss"
    by (auto simp: read_slots_def split: option.splits)
  from as have tt: "tt < length h" and htt: "h ! tt = ListObj as"
    by (auto simp: get_list_def lookup_def split: if_splits option.splits obj.splits)
  define g where "g = (h @ [SlotObj s])[tt := ListObj (as @ [length h])]"
  from tt htt have la: "list_append tt (length h) (h @ [SlotObj s]) = g"
    by (simp add: list_append_def get_list_def lookup_def nth_append put_def g_def)
  from ss have m: "map (get_slot h) as = map Some ss" by (simp add: those_eq_Some)
  then have len: "length as = length ss" using map_eq_imp_length_eq by blast
  have old: "get_slot g (as ! i) = Some (ss ! i)" if "i < length as" for i
  proof -
    have "map (get_slot h) as ! i = map Some ss ! i" by (simp only: m)
    with that len have a: "get_slot h (as ! i) = Some (ss ! i)" by simp
    then have "as ! i < length h" and "as ! i \<noteq> tt"
      using htt by (auto simp: get_slot_def lookup_def split: if_splits)
    with a show ?thesis
      by (simp add: get_slot_def lookup_def g_def nth_append)
  qed
  have "map (get_slot g) as = map Some ss"
    by (rule nth_equalityI) (simp_all add: len old)
  moreover from tt have "get_slot g (length h) = Some s"
    by (simp add: get_slot_def lookup_def g_def)
  ultimately have "map (get_slot g) (as @ [length h]) = map Some (ss @ [s])" by simp
  then have "those (map (get_slot g) (as @ [length h])) = Some (ss @ [s])"
    by (simp only: those_eq_Some)
  moreover from tt have "get_list g tt = Some (as @ [length h])"
    by (simp add: get_list_def lookup_def g_def)
  ultimately show ?thesis by (simp add: read_slots_def la)
qed

lemma read_slots_timetable_loop_heap:
  "read_slots h tt = Some ss \<Longrightarrow>
     read_slots (timetable_loop_heap ps ct tt h) tt =
       Some (timetable_loop (map snd ps) ct ss)"
proof (induction ps arbitrary: ct h ss)
  case Nil
  then show ?case by simp
next
  case (Cons p ps)
  obtain a t where p: "p = (a, t)" by (cases p)
  define s where "s = \<lparr>slot_task = description t, slot_priority = priority t,
      start_time = ct, end_time = add_minutes ct (time_allocation (priority t)),
      duration = time_allocation (priority t)\<rparr>"
  from Cons.prems
  have "read_slots (list_append tt (length h) (h @ [SlotObj s])) tt = Some (ss @ [s])"
    by (rule read_slots_step)
  from Cons.IH [OF this] show ?case
    by (simp add: p Let_def alloc_def s_def)
qed

lemma map_snd_insort_key:
  "map snd (insort_key (\<lambda>(a, x). k x) p ps) = insort_key k (snd p) (map snd ps)"
  by (induction ps) (auto simp: case_prod_beta)

lemma map_snd_sort_key:
  "map snd (sort_key (\<lambda>(a, x). k x) ps) = sort_key k (map snd ps)"
  by (induction ps) (simp_all add: map_snd_insort_key)

lemma generate_timetable_heap_refines:
  assumes "read_tasks h tasks = Some ps"
  shows "\<exists>h' r. generate_timetable_heap now_a now_b tasks h = Some (h', r)
           \<and> (case r of None \<Rightarrow> None | Some tt \<Rightarrow> read_slots h' tt) =
               generate_timetable now_a now_b (map snd ps)"
proof -
  define sel where
    "sel = [(a, task) \<leftarrow> ps. due_date task = date_of now_a \<and> \<not> completed task]"
  define srt where "srt = sort_key (\<lambda>(a, x). priority_order (priority x)) sel"
  define h1 where "h1 = h @ [ListObj (map fst sel)]"
  define h2 where "h2 = put (length h) (ListObj (map fst srt)) h1"
  define h3 where "h3 = h2 @ [ListObj []]"
  have sel_snd: "[t \<leftarrow> map snd ps. due_date t = date_of now_a \<and> \<not> completed t] =
      map snd sel"
    unfolding sel_def by (rule filter_pairs_snd [symmetric])
  have srt_snd: "sort_key (\<lambda>x. priority_order (priority x)) (map snd sel) = map snd srt"
    unfolding srt_def by (rule map_snd_sort_key [symmetric])
  have len2: "length h2 = Suc (length h)" by (simp add: h2_def h1_def put_def)
  have "read_slots h3 (length h2) = Some []"
    by (simp add: read_slots_def get_list_def lookup_def h3_def)
  then have loop: "read_slots (timetable_loop_heap srt now_b (length h2) h3) (length h2) =
      Some (timetable_loop (map snd srt) now_b [])"
    by (rule read_slots_timetable_loop_heap)
  have pure: "generate_timetable now_a now_b (map snd ps) =
      (if sel = [] then None else Some (timetable_loop (map snd srt) now_b []))"
    unfolding generate_timetable_def Let_def sel_snd srt_snd by simp
  have heap: "generate_timetable_heap now_a now_b tasks h =
      Some (if sel = [] then (h1, None)
            else (timetable_loop_heap srt now_b (length h2) h3, Some (length h2)))"
    unfolding generate_timetable_heap_def Let_def
    using assms
    by (simp add: alloc_def sel_def [symmetric] srt_def [symmetric] h1_def [symmetric]
        h2_def [symmetric] h3_def [symmetric])
  show ?thesis
    unfolding pure heap using loop by simp
qed

lemma frame_of_rows_make_row:
  assumes "length codes = length ts" and "length probs = length ts"
  shows "frame_of_rows (map (\<lambda>(task, code, prob). make_row task code prob)
                          (zip ts (zip codes probs))) =
         \<lparr>frame_tasks = ts,
          col_days_to_due = Some (map task_days_to_due ts),
          col_is_completed = Some (map (\<lambda>task. if completed task then 1 else 0) ts),
          col_priority_encoded = Some codes,
          col_completion_probability = Some probs\<rparr>"
proof -
  let ?rows = "map (\<lambda>(task, code, prob). make_row task code prob) (zip ts (zip codes probs))"
  have "map task.truncate ?rows = ts"
    using assms by (intro nth_equalityI) (simp_all add: make_row_fields)
  moreover have "map days_to_due ?rows = map task_days_to_due ts"
    using assms by (intro nth_equalityI) (simp_all add: make_row_fields)
  moreover have "map is_completed ?rows = map (\<lambda>task. if completed task then 1 else 0) ts"
    using assms by (intro nth_equalityI) (simp_all add: make_row_fields)
  moreover have "map priority_encoded ?rows = codes"
    using assms by (intro nth_equalityI) (simp_all add: make_row_fields)
  moreover have "map completion_probability ?rows = probs"
    using assms by (intro nth_equalityI) (simp_all add: make_row_fields)
  ultimately show ?thesis by (simp only: frame_of_rows_def)
qed

lemma analyze_productivity_heap_refines:
  assumes "read_tasks h tasks = Some ps"
  shows "\<exists>h' r. analyze_productivity_heap clf tasks h = Some (h', r)
           \<and> (case r of None \<Rightarrow> None | Some df \<Rightarrow> get_frame h' df) =
               map_option frame_of_rows (analyze_productivity clf (map snd ps))"
proof -
  define ts where "ts = map snd ps"
  define days where "days = map task_days_to_due ts"
  define y where "y = map (\<lambda>task. if completed task then 1 else (0::int)) ts"
  define codes where "codes = fit_transform (map priority ts)"
  have lc: "length codes = length ts" by (simp add: codes_def fit_transform_def)
  show ?thesis
  proof (cases "ts = []")
    case True
    with assms show ?thesis
      by (simp add: analyze_productivity_heap_def analyze_productivity_def ts_def)
  next
    case ne: False
    show ?thesis
    proof (cases "clf (zip days codes) y")
      case None
      with assms ne show ?thesis
        unfolding analyze_productivity_heap_def analyze_productivity_def Let_def
        by (simp add: alloc_def ts_def [symmetric] days_def [symmetric] y_def [symmetric]
            codes_def [symmetric])
    next
      case (Some probs)
      show ?thesis
      proof (cases "length probs = length ts")
        case False
        with assms ne Some show ?thesis
          unfolding analyze_productivity_heap_def analyze_productivity_def Let_def
          by (simp add: alloc_def ts_def [symmetric] days_def [symmetric] y_def [symmetric]
              codes_def [symmetric])
      next
        case True
        have fr: "frame_of_rows (map (\<lambda>(task, code, prob). make_row task code prob)
                          (zip ts (zip codes probs))) =
            \<lparr>frame_tasks = ts, col_days_to_due = Some days, col_is_completed = Some y,
             col_priority_encoded = Some codes, col_completion_probability = Some probs\<rparr>"
          unfolding days_def y_def by (rule frame_of_rows_make_row [OF lc True])
        have pure: "analyze_productivity clf (map snd ps) =
            Some (map (\<lambda>(task, code, prob). make_row task code prob)
                          (zip ts (zip codes probs)))"
          using ne Some True
          unfolding analyze_productivity_def Let_def
          by (simp add: ts_def [symmetric] days_def [symmetric] y_def [symmetric]
              codes_def [symmetric])
        have heap: "analyze_productivity_heap clf tasks h =
            Some ((h @ [FrameObj \<lparr>frame_tasks = ts, col_days_to_due = Some days,
                     col_is_completed = Some y, col_priority_encoded = Some codes,
                     col_completion_probability = Some probs\<rparr>]), Some (length h))"
          using assms ne Some True
          unfolding analyze_productivity_heap_def Let_def
          by (simp add: alloc_def put_def ts_def [symmetric] days_def [symmetric]
              y_def [symmetric] codes_def [symmetric])
        show ?thesis
          unfolding pure heap by (simp add: fr get_frame_def lookup_def)
      qed
    qed
  qed
qed

text \<open>
  Claim C9: for every task list, each of \<^verbatim>\<open>analyze_productivity\<close>,
  \<^verbatim>\<open>analyze_daily_productivity\<close> and \<^verbatim>\<open>generate_timetable\<close> returns, and after the call
  every object that existed before it is unchanged; in particular the task list has
  the same length, the same task objects in the same order, and every field of every
  task is as before.
\<close>

theorem analysis_leaves_task_list_unchanged:
  "read_tasks h tasks = Some ps \<longrightarrow>
     (\<exists>h' r. analyze_productivity_heap clf tasks h = Some (h', r)
        \<and> preserved h h' \<and> read_tasks h' tasks = read_tasks h tasks)
     \<and> (\<exists>h' r. analyze_daily_productivity_heap now_a now_b tasks h = Some (h', r)
        \<and> preserved h h' \<and> read_tasks h' tasks = read_tasks h tasks)
     \<and> (\<exists>h' r. generate_timetable_heap now_a now_b tasks h = Some (h', r)
        \<and> preserved h h' \<and> read_tasks h' tasks = read_tasks h tasks)"
proof
  assume ps: "read_tasks h tasks = Some ps"
  have keep: "preserved h h' \<and> read_tasks h' tasks = read_tasks h tasks"
    if "preserved h h'" for h'
    using that read_tasks_preserved [OF that ps] ps by simp
  from analyze_productivity_heap_refines [OF ps, of clf]
  obtain h1 r1 where a: "analyze_productivity_heap clf tasks h = Some (h1, r1)" by blast
  from analyze_daily_productivity_heap_refines [OF ps, of now_a now_b]
  obtain h2 r2 where b: "analyze_daily_productivity_heap now_a now_b tasks h = Some (h2, r2)"
    by blast
  from generate_timetable_heap_refines [OF ps, of now_a now_b]
  obtain h3 r3 where c: "generate_timetable_heap now_a now_b tasks h = Some (h3, r3)"
    by blast
  from a keep [OF preserved_analyze_productivity_heap [OF a]]
  have "\<exists>h' r. analyze_productivity_heap clf tasks h = Some (h', r)
        \<and> preserved h h' \<and> read_tasks h' tasks = read_tasks h tasks" by blast
  moreover from b keep [OF preserved_analyze_daily_productivity_heap [OF b]]
  have "\<exists>h' r. analyze_daily_productivity_heap now_a now_b tasks h = Some (h', r)
        \<and> preserved h h' \<and> read_tasks h' tasks = read_tasks h tasks" by blast
  moreover from c keep [OF preserved_generate_timetable_heap [OF c]]
  have "\<exists>h' r. generate_timetable_heap now_a now_b tasks h = Some (h', r)
        \<and> preserved h h' \<and> read_tasks h' tasks = read_tasks h tasks" by blast
  ultimately show "(\<exists>h' r. analyze_productivity_heap clf tasks h = Some (h', r)
        \<and> preserved h h' \<and> read_tasks h' tasks = read_tasks h tasks)
     \<and> (\<exists>h' r. analyze_daily_productivity_heap now_a now_b tasks h = Some (h', r)
        \<and> preserved h h' \<and> read_tasks h' tasks = read_tasks h tasks)
     \<and> (\<exists>h' r. generate_timetable_heap now_a now_b tasks h = Some (h', r)
        \<and> preserved h h' \<and> read_tasks h' tasks = read_tasks h tasks)"
    by blast
qed

theorem analysis_leaves_task_list_unchanged_witness:
  "read_tasks example_heap 2 =
     Some [(0, \<lparr>task_id = 1, description = ''tidy'', due_date = 3, priority = Low,
                 created_at = 0, completed = False\<rparr>),
           (1, \<lparr>task_id = 2, description = ''report'', due_date = 3, priority = High,
                 created_at = 1, completed = False\<rparr>)]
   \<and> analyze_productivity_heap (\<lambda>X y. Some [1 / 2, 1 / 4]) 2 example_heap =
       Some (example_heap @
             [FrameObj
               \<lparr>frame_tasks =
                  [\<lparr>task_id = 1, description = ''tidy'', due_date = 3, priority = Low,
                     created_at = 0, completed = False\<rparr>,
                   \<lparr>task_id = 2, description = ''report'', due_date = 3, priority = High,
                     created_at = 1, completed = False\<rparr>],
                col_days_to_due = Some [3, 2], col_is_completed = Some [0, 0],
                col_priority_encoded = Some [1, 0],
                col_completion_probability = Some [1 / 2, 1 / 4]\<rparr>],
             Some 3)
   \<and> analyze_daily_productivity_heap 288000000000 288000000001 2 example_heap =
       Some (example_heap @ [ListObj [0, 1]], Some (3, 0, True))
   \<and> generate_timetable_heap 288000000000 288000000001 2 example_heap =
       Some (example_heap @
             [ListObj [1, 0], ListObj [5, 6],
              SlotObj \<lparr>slot_task = ''report'', slot_priority = High,
                       start_time = 288000000001, end_time = 291600000001,
                       duration = 60\<rparr>,
              SlotObj \<lparr>slot_task = ''tidy'', slot_priority = Low,
                       start_time = 291600000001, end_time = 293400000001,
                       duration = 30\<rparr>],
             Some 4)"
  using analysis_leaves_task_list_unchanged [where h = example_heap and tasks = 2
      and clf = "\<lambda>X y. Some [1 / 2, 1 / 4]" and now_a = 288000000000
      and now_b = 288000000001]
  by (simp add: example_heap_def read_tasks_def get_list_def get_task_def lookup_def
      analyze_productivity_heap_def analyze_daily_productivity_heap_def
      generate_timetable_heap_def alloc_def put_def list_append_def
      fit_transform_def label_classes_def task_days_to_due_def timedelta_days_def
      midnight_def date_of_def hour_of_def us_per_day_def us_per_hour_def
      us_per_minute_def add_minutes_def)

section \<open>Properties of the offline trainer\<close>

text \<open>The test part of the trainer's call has a fifth of the rows, rounded up.\<close>

lemma n_test_fifth: "nat \<lceil>2 / 10 * real n\<rceil> = (n + 4) div 5"
proof -
  define q where "q = (n + 4) div 5"
  define r where "r = (n + 4) mod 5"
  have n: "n + 4 = 5 * q + r" and r: "r < 5" by (simp_all add: q_def r_def)
  have "\<lceil>2 / 10 * real n\<rceil> = int q"
  proof (rule ceiling_unique)
    from n r have "5 * q < n + 5" by linarith
    then have "5 * real q < real n + 5" by (metis of_nat_less_iff of_nat_add of_nat_mult of_nat_numeral)
    then show "real_of_int (int q) - 1 < 2 / 10 * real n" by simp
  next
    from n r have "n \<le> 5 * q" by linarith
    then have "real n \<le> 5 * real q" by (metis of_nat_le_iff of_nat_mult of_nat_numeral)
    then show "2 / 10 * real n \<le> real_of_int (int q)" by simp
  qed
  then show ?thesis by (simp add: q_def)
qed

lemma n_test_fifth_div: "nat \<lceil>real n / 5\<rceil> = (n + 4) div 5"
  using n_test_fifth [of n] by simp

lemma validate_trainer_call:
  "validate_shuffle_split n train_test_split_call =
     (if n < 2 then Inl ValueError else Inr (n - (n + 4) div 5, (n + 4) div 5))"
proof -
  have "(n + 4) div 5 \<le> n" by linarith
  moreover have "n - (n + 4) div 5 = 0 \<longleftrightarrow> n < 2" by linarith
  ultimately show ?thesis
    by (simp add: validate_shuffle_split_def train_test_split_call_def n_test_fifth_div
        Let_def)
qed

lemma permutation_indices:
  assumes "sort p = [0 ..< n]"
  shows "length p = n" and "list_all (\<lambda>i. i < n) p" and "mset p = mset [0 ..< n]"
proof -
  from assms have m: "mset p = mset [0 ..< n]" by (metis mset_sort)
  then show "mset p = mset [0 ..< n]" .
  from m show "length p = n" by (metis length_upt mset_eq_length minus_nat.diff_0)
  from m have "set p = set [0 ..< n]" by (rule mset_eq_setD)
  then show "list_all (\<lambda>i. i < n) p" by (simp add: list_all_iff)
qed

lemma list_all_take_drop:
  "list_all P p \<Longrightarrow> list_all P (take k p) \<and> list_all P (drop k p)"
  by (auto simp: list_all_iff dest: in_set_takeD in_set_dropD)

lemma mset_take_drop_map:
  "mset (map f (drop k p)) + mset (map f (take k p)) = mset (map f p)"
proof -
  have "map f p = map f (take k p) @ map f (drop k p)"
    by (simp flip: map_append)
  then show ?thesis by simp
qed

lemma map_nth_zip:
  assumes "length X = n" and "length y = n"
  shows "map (\<lambda>i. (X ! i, y ! i)) [0 ..< n] = zip X y"
  using assms by (intro nth_equalityI) simp_all

lemma trainer_lengths:
  "length (trainer_features df) = length df" "length (trainer_labels df) = length df"
  by (simp_all add: trainer_features_def trainer_labels_def fit_transform_def)

lemma train_test_split_trainer:
  assumes p: "sort (permutation (Some 42) (length X)) = [0 ..< length X]"
    and len: "length y = length X" and n: "2 \<le> length X"
  shows "train_test_split permutation stratified train_test_split_call X y =
     Inr (map (\<lambda>i. X ! i) (drop ((length X + 4) div 5) (permutation (Some 42) (length X))),
          map (\<lambda>i. X ! i) (take ((length X + 4) div 5) (permutation (Some 42) (length X))),
          map (\<lambda>i. y ! i) (drop ((length X + 4) div 5) (permutation (Some 42) (length X))),
          map (\<lambda>i. y ! i) (take ((length X + 4) div 5) (permutation (Some 42) (length X))))"
proof -
  define q where "q = permutation (Some 42) (length X)"
  define k where "k = (length X + 4) div 5"
  from p have lq: "length q = length X" and all: "list_all (\<lambda>i. i < length X) q"
    unfolding q_def by (rule permutation_indices)+
  have t: "take (length X - k) (drop k q) = drop k q" by (simp add: lq)
  from all have a: "list_all (\<lambda>i. i < length X) (take k q)"
    "list_all (\<lambda>i. i < length X) (drop k q)"
    using list_all_take_drop by blast+
  have rs: "random_state train_test_split_call = Some 42"
    "shuffle train_test_split_call" "stratify train_test_split_call = None"
    by (simp_all add: train_test_split_call_def)
  from n len show ?thesis
    unfolding train_test_split_def validate_trainer_call
    by (simp add: rs Let_def q_def [symmetric] k_def [symmetric] t safe_indexing_def a)
qed

text \<open>
  Claim C3, amended: the trainer's split is the library's shuffled split, and it is
  not stratified. Whatever the labels are, the test part is the rows at the first
  positions of the permutation drawn for the seed 42, a fifth of the rows rounded up,
  and the training part is the rows at the remaining positions, so that every row
  goes with its label to exactly one of the parts; the classifier is fitted on that
  training part. With fewer than two rows the split raises \<^verbatim>\<open>ValueError\<close>.
\<close>

theorem trainer_split:
  "sort (permutation (Some 42) (length df)) = [0 ..< length df] \<longrightarrow>
     (length df < 2 \<longrightarrow> train permutation stratified fit predict df = Inl ValueError)
     \<and> (2 \<le> length df \<longrightarrow>
          (\<exists>X_train X_test y_train y_test.
             train_test_split permutation stratified train_test_split_call
               (trainer_features df) (trainer_labels df) =
               Inr (X_train, X_test, y_train, y_test)
             \<and> train permutation stratified fit predict df =
                 Inr (fit X_train y_train, y_test, predict (fit X_train y_train) X_test)
             \<and> length df \<le> 5 * length X_test \<and> 5 * length X_test < length df + 5
             \<and> length X_train = length df - length X_test
             \<and> length y_test = length X_test \<and> length y_train = length X_train
             \<and> zip X_test y_test =
                 map (\<lambda>i. (trainer_features df ! i, trainer_labels df ! i))
                   (take (length X_test) (permutation (Some 42) (length df)))
             \<and> zip X_train y_train =
                 map (\<lambda>i. (trainer_features df ! i, trainer_labels df ! i))
                   (drop (length X_test) (permutation (Some 42) (length df)))
             \<and> mset (zip X_train y_train) + mset (zip X_test y_test) =
                 mset (zip (trainer_features df) (trainer_labels df))))"
proof (intro impI conjI)
  assume "length df < 2"
  then show "train permutation stratified fit predict df = Inl ValueError"
    by (simp add: train_def Let_def train_test_split_def validate_trainer_call
        trainer_lengths)
next
  assume p: "sort (permutation (Some 42) (length df)) = [0 ..< length df]"
    and n: "2 \<le> length df"
  define X where "X = trainer_features df"
  define y where "y = trainer_labels df"
  define q where "q = permutation (Some 42) (length df)"
  define k where "k = (length df + 4) div 5"
  define pair where "pair = (\<lambda>i. (X ! i, y ! i))"
  have lX: "length X = length df" and ly: "length y = length df"
    by (simp_all add: X_def y_def trainer_lengths)
  from p have lq: "length q = length df" and mq: "mset q = mset [0 ..< length df]"
    unfolding q_def by (rule permutation_indices)+
  have kn: "k \<le> length df" "length df \<le> 5 * k" "5 * k < length df + 5"
    unfolding k_def by linarith+
  have split: "train_test_split permutation stratified train_test_split_call X y =
      Inr (map (\<lambda>i. X ! i) (drop k q), map (\<lambda>i. X ! i) (take k q),
           map (\<lambda>i. y ! i) (drop k q), map (\<lambda>i. y ! i) (take k q))"
    using train_test_split_trainer [of permutation X y stratified] p n
    by (simp add: lX ly q_def k_def)
  then have tr: "train permutation stratified fit predict df =
      Inr (fit (map (\<lambda>i. X ! i) (drop k q)) (map (\<lambda>i. y ! i) (drop k q)),
           map (\<lambda>i. y ! i) (take k q),
           predict (fit (map (\<lambda>i. X ! i) (drop k q)) (map (\<lambda>i. y ! i) (drop k q)))
             (map (\<lambda>i. X ! i) (take k q)))"
    by (simp add: train_def Let_def X_def [symmetric] y_def [symmetric])
  have lt: "length (map (\<lambda>i. X ! i) (take k q)) = k" using kn lq by simp
  have z1: "zip (map (\<lambda>i. X ! i) (take k q)) (map (\<lambda>i. y ! i) (take k q)) =
      map pair (take k q)"
    by (simp add: zip_map_map pair_def zip_same_conv_map)
  have z2: "zip (map (\<lambda>i. X ! i) (drop k q)) (map (\<lambda>i. y ! i) (drop k q)) =
      map pair (drop k q)"
    by (simp add: zip_map_map pair_def zip_same_conv_map)
  have "mset (map pair (drop k q)) + mset (map pair (take k q)) = mset (map pair q)"
    by (rule mset_take_drop_map)
  also have "\<dots> = mset (map pair [0 ..< length df])"
    using mq by (metis mset_map)
  also have "\<dots> = mset (zip X y)"
    unfolding pair_def using map_nth_zip [OF lX ly] by simp
  finally have part: "mset (map pair (drop k q)) + mset (map pair (take k q)) =
      mset (zip X y)" .
  show "\<exists>X_train X_test y_train y_test.
             train_test_split permutation stratified train_test_split_call
               (trainer_features df) (trainer_labels df) =
               Inr (X_train, X_test, y_train, y_test)
             \<and> train permutation stratified fit predict df =
                 Inr (fit X_train y_train, y_test, predict (fit X_train y_train) X_test)
             \<and> length df \<le> 5 * length X_test \<and> 5 * length X_test < length df + 5
             \<and> length X_train = length df - length X_test
             \<and> length y_test = length X_test \<and> length y_train = length X_train
             \<and> zip X_test y_test =
                 map (\<lambda>i. (trainer_features df ! i, trainer_labels df ! i))
                   (take (length X_test) (permutation (Some 42) (length df)))
             \<and> zip X_train y_train =
                 map (\<lambda>i. (trainer_features df ! i, trainer_labels df ! i))
                   (drop (length X_test) (permutation (Some 42) (length df)))
             \<and> mset (zip X_train y_train) + mset (zip X_test y_test) =
                 mset (zip (trainer_features df) (trainer_labels df))"
    apply (rule exI [of _ "map (\<lambda>i. X ! i) (drop k q)"])
    apply (rule exI [of _ "map (\<lambda>i. X ! i) (take k q)"])
    apply (rule exI [of _ "map (\<lambda>i. y ! i) (drop k q)"])
    apply (rule exI [of _ "map (\<lambda>i. y ! i) (take k q)"])
    unfolding X_def [symmetric] y_def [symmetric] q_def [symmetric] lt z1 z2
    using split tr kn lq part
    by (simp add: pair_def)
qed

text \<open>
  Claim C3, as stated: the trainer's split is stratified. For ten rows numpy's
  generator seeded with 42 draws the permutation 8, 1, 5, 0, 7, 2, 9, 4, 3, 6. Of the
  ten tasks of \<^const>\<open>example_dataset\<close>, five are completed; the test part is the rows 8
  and 1, both completed, where a stratified split has one row of each class.
\<close>

theorem split_is_not_stratified:
  "trainer_labels example_dataset = [0, 1, 0, 0, 0, 0, 1, 1, 1, 1]
   \<and> map_sum id (\<lambda>(X_train, X_test, y_train, y_test). (y_train, y_test))
        (train_test_split (\<lambda>seed n. [8, 1, 5, 0, 7, 2, 9, 4, 3, 6])
           (\<lambda>seed labels n_train n_test. Inl ValueError) train_test_split_call
           (trainer_features example_dataset) (trainer_labels example_dataset))
      = Inr ([0, 0, 1, 0, 1, 0, 0, 1], [1, 1])
   \<and> \<not> proportional (trainer_labels example_dataset) [1, 1]"
  by (simp add: example_dataset_def trainer_labels_def trainer_features_def
      fit_transform_def label_classes_def train_test_split_def validate_shuffle_split_def
      train_test_split_call_def safe_indexing_def proportional_def Let_def)

theorem trainer_split_witness:
  "sort [8, 1, 5, 0, 7, 2, 9, 4, 3, 6] = [0 ..< length example_dataset]
   \<and> train (\<lambda>seed n. if n = 10 then [8, 1, 5, 0, 7, 2, 9, 4, 3, 6] else [0 ..< n])
        (\<lambda>seed labels n_train n_test. Inl ValueError)
        (\<lambda>X y. sum_list y) (\<lambda>m X. map (\<lambda>x. m) X) example_dataset
      = Inr (3, [1, 1], [3, 3])
   \<and> train (\<lambda>seed n. if n = 10 then [8, 1, 5, 0, 7, 2, 9, 4, 3, 6] else [0 ..< n])
        (\<lambda>seed labels n_train n_test. Inl ValueError)
        (\<lambda>X y. sum_list y) (\<lambda>m X. map (\<lambda>x. m) X) (take 1 example_dataset)
      = Inl ValueError"
  using trainer_split [where df = example_dataset
      and permutation = "\<lambda>seed n. if n = 10 then [8, 1, 5, 0, 7, 2, 9, 4, 3, 6] else [0 ..< n]"
      and stratified = "\<lambda>seed labels n_train n_test. Inl ValueError"
      and fit = "\<lambda>X y. sum_list y" and predict = "\<lambda>m X. map (\<lambda>x. m) X"]
    trainer_split [where df = "take 1 example_dataset"
      and permutation = "\<lambda>seed n. if n = 10 then [8, 1, 5, 0, 7, 2, 9, 4, 3, 6] else [0 ..< n]"
      and stratified = "\<lambda>seed labels n_train n_test. Inl ValueError"
      and fit = "\<lambda>X y. sum_list y" and predict = "\<lambda>m X. map (\<lambda>x. m) X"]
  by (simp add: example_dataset_def trainer_labels_def trainer_features_def
      fit_transform_def label_classes_def train_def train_test_split_def
      validate_shuffle_split_def train_test_split_call_def safe_indexing_def Let_def)

end
